theory Spec2Isabelle
  imports Complex_Main "HOL-Library.Multiset" "HOL-Library.Monad_Syntax"
begin

section \<open>The document store of FormTool.py: totals, CSV export, CSV import\<close>

text \<open>
  The development embeds \<^verbatim>\<open>compute_totals\<close>, \<^verbatim>\<open>save_document_csv\<close> and
  \<^verbatim>\<open>load_quote_from_csv\<close> of \<^verbatim>\<open>FormTool.py\<close>.

  What the interpreter and its standard library supply is taken as a parameter of the
  functions that use it:
  \<^item> numbers (\<^verbatim>\<open>float\<close>) are values of a type \<open>'n\<close> with the operations of
    \<open>py_arith\<close>, among them the builtin \<^verbatim>\<open>sum\<close>, which is not the same function in
    every version of CPython; \<^verbatim>\<open>str(x)\<close> as \<^verbatim>\<open>csv.writer\<close> applies it to a
    non-string cell and \<^verbatim>\<open>float(s)\<close> are the fields of \<open>py_text\<close>, where \<open>None\<close>
    stands for \<^verbatim>\<open>ValueError\<close>;
  \<^item> dates are values of a type \<open>'d\<close>; \<^verbatim>\<open>strftime\<close> and \<^verbatim>\<open>strptime\<close>, each
    taking the format, and \<^verbatim>\<open>datetime.date.today()\<close> are the fields of \<open>py_dates\<close>;
  \<^item> a CSV file is what \<^verbatim>\<open>csv.reader\<close> makes of it when it is opened as
    \<^verbatim>\<open>load_quote_from_csv\<close> opens it: the list of rows that it yields, a row being a
    list of cells, or the \<^verbatim>\<open>csv.Error\<close> that it raises. What \<^verbatim>\<open>csv.writer\<close> has
    written is read back through \<open>as_read\<close>;
  \<^item> a character is a code point below 256, and a string a list of them.
  A raised exception that the source does not catch is the result \<open>None\<close> or an
  explicit \<open>pyerr\<close>.

  Interpretations are given for each parameter: whole amounts with exact operations
  and the dates of the calendar, printed and parsed as the C library and CPython do for
  \<^verbatim>\<open>%m-%d-%Y\<close>, to apply the theorems to example documents; and the arithmetic of
  \<^verbatim>\<open>float\<close> itself (binary64) with the two functions \<^verbatim>\<open>sum\<close> of CPython, on which
  the statement about the order of a sum depends.
\<close>

subsection \<open>Strings\<close>

text \<open>\<^verbatim>\<open>str.isspace\<close> on the code points below 256.\<close>

definition py_isspace :: "char \<Rightarrow> bool" where
  "py_isspace c \<longleftrightarrow>
     c \<in> set [CHR 0x09, CHR 0x0A, CHR 0x0B, CHR 0x0C, CHR 0x0D,
               CHR 0x1C, CHR 0x1D, CHR 0x1E, CHR 0x1F, CHR 0x20, CHR 0x85, CHR 0xA0]"

text \<open>\<^verbatim>\<open>s.strip()\<close>\<close>

definition strip :: "string \<Rightarrow> string" where
  "strip s = rev (dropWhile py_isspace (rev (dropWhile py_isspace s)))"

subsection \<open>Indexing\<close>

datatype pyerr = IndexError | KeyError

text \<open>\<^verbatim>\<open>xs[i]\<close> for \<open>i \<ge> 0\<close> and \<^verbatim>\<open>xs[-1]\<close>; \<open>None\<close> is \<^verbatim>\<open>IndexError\<close>.\<close>

definition item :: "'a list \<Rightarrow> nat \<Rightarrow> 'a option" where
  "item xs i = (if i < length xs then Some (xs ! i) else None)"

definition item_last :: "'a list \<Rightarrow> 'a option" where
  "item_last xs = (if xs = [] then None else Some (last xs))"

subsection \<open>The interpreter's numbers, conversions and dates\<close>

text \<open>
  \<open>py_sum\<close> is \<^verbatim>\<open>sum(xs)\<close> of an iterable of \<^verbatim>\<open>float\<close>, with the default start.
\<close>

record 'n py_arith =
  py_add :: "'n \<Rightarrow> 'n \<Rightarrow> 'n"
  py_mul :: "'n \<Rightarrow> 'n \<Rightarrow> 'n"
  py_sum :: "'n list \<Rightarrow> 'n"
  float_zero :: 'n

record 'n py_text =
  num_str :: "'n \<Rightarrow> string"
  to_float :: "string \<Rightarrow> 'n option"

text \<open>
  \<^verbatim>\<open>date_obj.strftime(fmt)\<close>, \<^verbatim>\<open>datetime.datetime.strptime(date_str, fmt).date()\<close>
  with \<open>None\<close> for \<^verbatim>\<open>ValueError\<close>, and \<^verbatim>\<open>datetime.date.today()\<close>.
\<close>

record 'd py_dates =
  strftime :: "'d \<Rightarrow> string \<Rightarrow> string"
  strptime :: "string \<Rightarrow> string \<Rightarrow> 'd option"
  today :: 'd

definition DATE_FORMAT :: string where
  "DATE_FORMAT = ''%m-%d-%Y''"

text \<open>\<^verbatim>\<open>format_date\<close> and \<^verbatim>\<open>parse_mmddyyyy\<close>\<close>

definition format_date :: "'d py_dates \<Rightarrow> 'd \<Rightarrow> string" where
  "format_date D date_obj = strftime D date_obj DATE_FORMAT"

definition parse_mmddyyyy :: "'d py_dates \<Rightarrow> string \<Rightarrow> 'd option" where
  "parse_mmddyyyy D date_str = strptime D date_str DATE_FORMAT"

subsection \<open>Data models\<close>

record 'n EstimateLine =
  line_section :: string
  description :: string
  worker_type :: string
  hours :: 'n
  rate :: 'n
  detail :: string

text \<open>The property \<^verbatim>\<open>EstimateLine.total\<close>\<close>

definition total :: "'n py_arith \<Rightarrow> 'n EstimateLine \<Rightarrow> 'n" where
  "total A l = py_mul A (hours l) (rate l)"

record 'n OwnerAllowance =
  a_description :: string
  quantity :: 'n
  unit_cost :: 'n

text \<open>The property \<^verbatim>\<open>OwnerAllowance.total\<close>\<close>

definition a_total :: "'n py_arith \<Rightarrow> 'n OwnerAllowance \<Rightarrow> 'n" where
  "a_total A a = py_mul A (quantity a) (unit_cost a)"

subsection \<open>Totals\<close>

text \<open>
  \<^verbatim>\<open>compute_totals\<close>: the subtotal is \<^verbatim>\<open>sum(l.total for l in lines)\<close>. The totals
  dictionary is a map from its keys.
\<close>

definition compute_totals :: "'n py_arith \<Rightarrow> 'n EstimateLine list \<Rightarrow> 'n \<Rightarrow> (string \<rightharpoonup> 'n)" where
  "compute_totals A lines receipts_total =
     (let contractor_subtotal = py_sum A (map (total A) lines);
          grand_total = py_add A contractor_subtotal receipts_total
      in [''subtotal'' \<mapsto> contractor_subtotal,
          ''receipts_total'' \<mapsto> receipts_total,
          ''grand_total'' \<mapsto> grand_total])"

subsection \<open>CSV export\<close>

type_synonym csv_row = "string list"

text \<open>
  A file as \<^verbatim>\<open>list(csv.reader(f))\<close> finds it, with \<^verbatim>\<open>f = open(path, "r",
  encoding="utf-8")\<close>: its rows, or \<^verbatim>\<open>csv.Error\<close> for a field longer than the limit of
  the \<^verbatim>\<open>csv\<close> module.
\<close>

datatype csv_file = Rows "csv_row list" | Field_too_long

text \<open>The file system as far as the two functions see it: the CSV files by path.\<close>

type_synonym files = "string \<rightharpoonup> csv_file"

text \<open>
  The file is written through \<^verbatim>\<open>open(path, "w", newline="", encoding="utf-8")\<close>, so
  each cell reaches the file as it is, quoted where it has to be. It is read through
  \<^verbatim>\<open>open(path, "r", encoding="utf-8")\<close>, without \<^verbatim>\<open>newline=""\<close>: the text layer
  turns a carriage return followed by a line feed, and every other carriage return, into
  a line feed before \<^verbatim>\<open>csv.reader\<close> sees the text.
\<close>

fun text_mode :: "string \<Rightarrow> string" where
  "text_mode (c # d # s) =
     (if c = CHR 0x0D then CHR 0x0A # (if d = CHR 0x0A then text_mode s else text_mode (d # s))
      else c # text_mode (d # s))"
| "text_mode [c] = [if c = CHR 0x0D then CHR 0x0A else c]"
| "text_mode [] = []"

text \<open>\<^verbatim>\<open>csv.field_size_limit()\<close>, which the program does not change.\<close>

definition field_limit :: nat where
  "field_limit = 131072"

text \<open>What reading finds in a file in which these rows were written.\<close>

definition as_read :: "csv_row list \<Rightarrow> csv_file" where
  "as_read rows =
     (let rows' = map (map text_mode) rows
      in if list_all (list_all (\<lambda>cell. length cell \<le> field_limit)) rows' then Rows rows'
         else Field_too_long)"

text \<open>\<^verbatim>\<open>os.path.join(a, b)\<close> of two components, as \<^verbatim>\<open>posixpath\<close> has it.\<close>

definition path_join :: "string \<Rightarrow> string \<Rightarrow> string" where
  "path_join a b =
     (if b \<noteq> [] \<and> hd b = CHR ''/'' then b
      else if a = [] \<or> last a = CHR ''/'' then a @ b
      else a @ ''/'' @ b)"

definition header_rows :: "'n py_arith \<Rightarrow> 'n py_text \<Rightarrow> string \<Rightarrow> string \<Rightarrow> string \<Rightarrow> string \<Rightarrow>
    string \<Rightarrow> (string \<rightharpoonup> 'n) \<Rightarrow> string \<Rightarrow> csv_row list" where
  "header_rows A T job_id doc_type project_name project_address client_name totals date_str =
     [[''DocType'', doc_type],
      [''JobID'', job_id],
      [''Project'', project_name],
      [''Client'', client_name],
      [''Address'', project_address],
      [''Date'', date_str],
      [''ReceiptsTotal'',
         num_str T (case totals ''receipts_total'' of None \<Rightarrow> float_zero A | Some v \<Rightarrow> v)],
      [],
      [''Section'', ''Description'', ''FullDescription'', ''WorkerType'', ''Hours/Qty'',
       ''Rate/UnitPrice'', ''LineTotal'']]"

definition line_row :: "'n py_arith \<Rightarrow> 'n py_text \<Rightarrow> 'n EstimateLine \<Rightarrow> csv_row" where
  "line_row A T line =
     [line_section line, description line, detail line, worker_type line,
      num_str T (hours line), num_str T (rate line), num_str T (total A line)]"

definition allowance_row :: "'n py_arith \<Rightarrow> 'n py_text \<Rightarrow> 'n OwnerAllowance \<Rightarrow> csv_row" where
  "allowance_row A T a =
     [a_description a, num_str T (quantity a), num_str T (unit_cost a), num_str T (a_total A a)]"

text \<open>The block written under \<^verbatim>\<open>if allowances:\<close>; the running \<^verbatim>\<open>allowance_total\<close>
  starts from \<^verbatim>\<open>0.0\<close>.\<close>

definition allowance_rows :: "'n py_arith \<Rightarrow> 'n py_text \<Rightarrow> 'n OwnerAllowance list \<Rightarrow> csv_row list" where
  "allowance_rows A T allowances =
     (if allowances \<noteq> [] then
        [[], [''Owner Allowances (client purchases directly)''],
         [''Description'', ''Quantity'', ''EstUnitCost'', ''EstTotal'']]
        @ map (allowance_row A T) allowances
        @ [[''OwnerAllowancesTotal'', '''', '''', '''',
            num_str T (foldl (py_add A) (float_zero A) (map (a_total A) allowances))]]
      else [])"

text \<open>
  The rows that the body of the \<^verbatim>\<open>with\<close> block writes, in order, and the exception
  that ends it early: \<^verbatim>\<open>totals["subtotal"]\<close> and \<^verbatim>\<open>totals["grand_total"]\<close> raise
  \<^verbatim>\<open>KeyError\<close> on a dictionary without the key, after the rows before them are
  written.
\<close>

definition written_rows :: "'n py_arith \<Rightarrow> 'n py_text \<Rightarrow> string \<Rightarrow> string \<Rightarrow> string \<Rightarrow> string \<Rightarrow>
    string \<Rightarrow> 'n EstimateLine list \<Rightarrow> (string \<rightharpoonup> 'n) \<Rightarrow> 'n OwnerAllowance list \<Rightarrow> string \<Rightarrow>
    csv_row list \<times> pyerr option" where
  "written_rows A T job_id doc_type project_name project_address client_name lines totals
      allowances date_str =
     (let rows = header_rows A T job_id doc_type project_name project_address client_name
                   totals date_str
                 @ map (line_row A T) lines @ [[]]
      in case totals ''subtotal'' of
           None \<Rightarrow> (rows, Some KeyError)
         | Some subtotal \<Rightarrow>
             (let rows = rows @ [[''Subtotal'', '''', '''', '''', '''', '''', num_str T subtotal]]
              in case totals ''grand_total'' of
                   None \<Rightarrow> (rows, Some KeyError)
                 | Some grand_total \<Rightarrow>
                     (rows @ [[''GrandTotal'', '''', '''', '''', '''', '''', num_str T grand_total]]
                        @ allowance_rows A T allowances, None)))"

text \<open>
  \<^verbatim>\<open>save_document_csv\<close>: the file at the computed path is created or replaced by the
  rows written; the result is the path, or the exception.
\<close>

definition save_document_csv :: "'n py_arith \<Rightarrow> 'n py_text \<Rightarrow> 'd py_dates \<Rightarrow> files \<Rightarrow> string \<Rightarrow>
    string \<Rightarrow> string \<Rightarrow> string \<Rightarrow> string \<Rightarrow> string \<Rightarrow> 'n EstimateLine list \<Rightarrow> (string \<rightharpoonup> 'n) \<Rightarrow>
    'n OwnerAllowance list \<Rightarrow> 'd \<Rightarrow> files \<times> (pyerr + string)" where
  "save_document_csv A T D fs job_dir job_id doc_type project_name project_address client_name
      lines totals allowances doc_date =
     (let date_str = format_date D doc_date;
          filename = job_id @ ''_'' @ doc_type @ ''_'' @ date_str @ ''.csv'';
          path = path_join job_dir filename;
          (rows, exc) = written_rows A T job_id doc_type project_name project_address
                          client_name lines totals allowances date_str
      in (fs(path \<mapsto> as_read rows), case exc of None \<Rightarrow> Inr path | Some e \<Rightarrow> Inl e))"

subsection \<open>CSV import\<close>

datatype 'd meta_value = Text string | Date 'd

text \<open>The four values that \<^verbatim>\<open>load_quote_from_csv\<close> returns.\<close>

record ('n, 'd) loaded =
  ld_meta :: "string \<rightharpoonup> 'd meta_value"
  ld_lines :: "'n EstimateLine list"
  ld_totals :: "string \<rightharpoonup> 'n"
  ld_allowances :: "'n OwnerAllowance list"

text \<open>What the function prints.\<close>

datatype message = Quote_file_not_found string

text \<open>\<^verbatim>\<open>try: float(s) except ValueError: 0.0\<close>\<close>

definition float_or_zero :: "'n py_arith \<Rightarrow> 'n py_text \<Rightarrow> string \<Rightarrow> 'n" where
  "float_or_zero A T s = (case to_float T s of None \<Rightarrow> float_zero A | Some v \<Rightarrow> v)"

text \<open>\<^verbatim>\<open>r[k].strip() if len(r) > k else ""\<close>\<close>

definition text_cell :: "csv_row \<Rightarrow> nat \<Rightarrow> string option" where
  "text_cell r k = (if k < length r then do { c \<leftarrow> item r k; Some (strip c) } else Some [])"

text \<open>\<^verbatim>\<open>float(r[k]) if len(r) > k and r[k].strip() != "" else 0.0\<close>, inside its
  \<^verbatim>\<open>try\<close> block.\<close>

definition number_cell :: "'n py_arith \<Rightarrow> 'n py_text \<Rightarrow> csv_row \<Rightarrow> nat \<Rightarrow> 'n option" where
  "number_cell A T r k =
     (if k < length r then
        do { c \<leftarrow> item r k;
             if strip c \<noteq> [] then do { c' \<leftarrow> item r k; Some (float_or_zero A T c') }
             else Some (float_zero A) }
      else Some (float_zero A))"

definition line_of_row :: "'n py_arith \<Rightarrow> 'n py_text \<Rightarrow> csv_row \<Rightarrow> 'n EstimateLine option" where
  "line_of_row A T r =
     do { sec \<leftarrow> text_cell r 0;
          desc \<leftarrow> text_cell r 1;
          det \<leftarrow> text_cell r 2;
          worker \<leftarrow> text_cell r 3;
          h \<leftarrow> number_cell A T r 4;
          rt \<leftarrow> number_cell A T r 5;
          Some \<lparr>line_section = sec, description = desc, worker_type = worker,
                hours = h, rate = rt, detail = det\<rparr> }"

definition allowance_of_row :: "'n py_arith \<Rightarrow> 'n py_text \<Rightarrow> csv_row \<Rightarrow> 'n OwnerAllowance option" where
  "allowance_of_row A T r =
     do { desc \<leftarrow> text_cell r 0;
          qty \<leftarrow> number_cell A T r 1;
          unit \<leftarrow> number_cell A T r 2;
          Some \<lparr>a_description = desc, quantity = qty, unit_cost = unit\<rparr> }"

definition table_end :: "string list" where
  "table_end = [''Subtotal'', ''GrandTotal'', ''Owner Allowances (client purchases directly)'']"

text \<open>
  The inner \<^verbatim>\<open>while\<close> loop under \<^verbatim>\<open>key == "Section"\<close>, entered with the index
  after the header row. It returns the index at which it stops and the lines so far.
\<close>

function table_loop :: "'n py_arith \<Rightarrow> 'n py_text \<Rightarrow> csv_row list \<Rightarrow> nat \<Rightarrow> 'n EstimateLine list \<Rightarrow>
    (nat \<times> 'n EstimateLine list) option" where
  "table_loop A T rows i lines =
     (if i < length rows then
        do { r \<leftarrow> item rows i;
             stop \<leftarrow> (if r = [] then Some True
                      else do { c \<leftarrow> item r 0; Some (strip c \<in> set table_end) });
             if stop then Some (i, lines)
             else if list_all (\<lambda>cell. strip cell = []) r then table_loop A T rows (i + 1) lines
             else do { line \<leftarrow> line_of_row A T r;
                       table_loop A T rows (i + 1) (lines @ [line]) } }
      else Some (i, lines))"
  by pat_completeness auto
termination
  by (relation "measure (\<lambda>(A, T, rows, i, lines). length rows - i)") auto

text \<open>The inner \<^verbatim>\<open>while\<close> loop under the allowances marker, entered with the index
  two rows after the marker.\<close>

function allowance_loop :: "'n py_arith \<Rightarrow> 'n py_text \<Rightarrow> csv_row list \<Rightarrow> nat \<Rightarrow>
    'n OwnerAllowance list \<Rightarrow> (nat \<times> 'n OwnerAllowance list) option" where
  "allowance_loop A T rows i allowances =
     (if i < length rows then
        do { r \<leftarrow> item rows i;
             if r = [] then allowance_loop A T rows (i + 1) allowances
             else do { c \<leftarrow> item r 0;
                       if strip c = ''OwnerAllowancesTotal'' then Some (i, allowances)
                       else do { a \<leftarrow> allowance_of_row A T r;
                                 allowance_loop A T rows (i + 1) (allowances @ [a]) } } }
      else Some (i, allowances))"
  by pat_completeness auto
termination
  by (relation "measure (\<lambda>(A, T, rows, i, allowances). length rows - i)") auto

definition set_meta :: "string \<Rightarrow> 'd meta_value \<Rightarrow> ('n, 'd) loaded \<Rightarrow> ('n, 'd) loaded" where
  "set_meta k v st = st\<lparr>ld_meta := (ld_meta st)(k \<mapsto> v)\<rparr>"

definition set_total :: "string \<Rightarrow> 'n \<Rightarrow> ('n, 'd) loaded \<Rightarrow> ('n, 'd) loaded" where
  "set_total k v st = st\<lparr>ld_totals := (ld_totals st)(k \<mapsto> v)\<rparr>"

text \<open>
  One pass through the body of the outer \<^verbatim>\<open>while\<close> loop at index \<open>i\<close>, which is
  below \<^verbatim>\<open>len(rows)\<close>: the index and the state with which the next pass starts.
\<close>

definition row_step :: "'n py_arith \<Rightarrow> 'n py_text \<Rightarrow> 'd py_dates \<Rightarrow> csv_row list \<Rightarrow> nat \<Rightarrow>
    ('n, 'd) loaded \<Rightarrow> (nat \<times> ('n, 'd) loaded) option" where
  "row_step A T D rows i st =
     do { row \<leftarrow> item rows i;
          if row = [] then Some (i + 1, st)
          else do {
            c \<leftarrow> item row 0;
            let key = strip c in
            if key = ''DocType'' \<and> 1 < length row then
              do { v \<leftarrow> item row 1; Some (i + 1, set_meta ''doc_type'' (Text (strip v)) st) }
            else if key = ''JobID'' \<and> 1 < length row then
              do { v \<leftarrow> item row 1; Some (i + 1, set_meta ''job_id'' (Text (strip v)) st) }
            else if key = ''Project'' \<and> 1 < length row then
              do { v \<leftarrow> item row 1; Some (i + 1, set_meta ''project_name'' (Text (strip v)) st) }
            else if key = ''Client'' \<and> 1 < length row then
              do { v \<leftarrow> item row 1; Some (i + 1, set_meta ''client_name'' (Text (strip v)) st) }
            else if key = ''Address'' \<and> 1 < length row then
              do { v \<leftarrow> item row 1;
                   Some (i + 1, set_meta ''project_address'' (Text (strip v)) st) }
            else if key = ''Date'' \<and> 1 < length row then
              do { v \<leftarrow> item row 1;
                   case parse_mmddyyyy D (strip v) of
                     Some d \<Rightarrow> Some (i + 1, set_meta ''doc_date'' (Date d) st)
                   | None \<Rightarrow> Some (i + 1, st) }
            else if key = ''ReceiptsTotal'' \<and> 1 < length row then
              do { v \<leftarrow> item row 1;
                   Some (i + 1, set_total ''receipts_total'' (float_or_zero A T v) st) }
            else if key = ''Section'' then
              do { (j, lines) \<leftarrow> table_loop A T rows (i + 1) (ld_lines st);
                   Some (j, st\<lparr>ld_lines := lines\<rparr>) }
            else if key = ''Subtotal'' then
              do { v \<leftarrow> item_last row;
                   Some (i + 1, set_total ''subtotal'' (float_or_zero A T v) st) }
            else if key = ''GrandTotal'' then
              do { v \<leftarrow> item_last row;
                   Some (i + 1, set_total ''grand_total'' (float_or_zero A T v) st) }
            else if key = ''Owner Allowances (client purchases directly)'' then
              do { (j, allowances) \<leftarrow> allowance_loop A T rows (i + 2) (ld_allowances st);
                   Some (j + 1, st\<lparr>ld_allowances := allowances\<rparr>) }
            else Some (i + 1, st) } }"

subsection \<open>The loops end, and where\<close>

declare table_loop.simps [simp del] allowance_loop.simps [simp del]

lemma item_Some: "i < length xs \<Longrightarrow> item xs i = Some (xs ! i)"
  by (simp add: item_def)

lemma item_None: "\<not> i < length xs \<Longrightarrow> item xs i = None"
  by (simp add: item_def)

lemma item_last_Some: "xs \<noteq> [] \<Longrightarrow> item_last xs = Some (last xs)"
  by (simp add: item_last_def)

text \<open>
  No cell access of a row conversion raises, since each stands behind its length check.
  What the conversions return, without the exception:
\<close>

definition cell_text :: "csv_row \<Rightarrow> nat \<Rightarrow> string" where
  "cell_text r k = (if k < length r then strip (r ! k) else [])"

definition cell_number :: "'n py_arith \<Rightarrow> 'n py_text \<Rightarrow> csv_row \<Rightarrow> nat \<Rightarrow> 'n" where
  "cell_number A T r k =
     (if k < length r \<and> strip (r ! k) \<noteq> [] then float_or_zero A T (r ! k) else float_zero A)"

definition row_line :: "'n py_arith \<Rightarrow> 'n py_text \<Rightarrow> csv_row \<Rightarrow> 'n EstimateLine" where
  "row_line A T r =
     \<lparr>line_section = cell_text r 0, description = cell_text r 1, worker_type = cell_text r 3,
      hours = cell_number A T r 4, rate = cell_number A T r 5, detail = cell_text r 2\<rparr>"

definition row_allowance :: "'n py_arith \<Rightarrow> 'n py_text \<Rightarrow> csv_row \<Rightarrow> 'n OwnerAllowance" where
  "row_allowance A T r =
     \<lparr>a_description = cell_text r 0, quantity = cell_number A T r 1,
      unit_cost = cell_number A T r 2\<rparr>"

lemma text_cell_eq: "text_cell r k = Some (cell_text r k)"
  by (simp add: text_cell_def cell_text_def item_def)

lemma number_cell_eq: "number_cell A T r k = Some (cell_number A T r k)"
  by (simp add: number_cell_def cell_number_def item_def)

lemma line_of_row_eq: "line_of_row A T r = Some (row_line A T r)"
  by (simp add: row_line_def line_of_row_def text_cell_eq number_cell_eq)

lemma allowance_of_row_eq: "allowance_of_row A T r = Some (row_allowance A T r)"
  by (simp add: row_allowance_def allowance_of_row_def text_cell_eq number_cell_eq)

lemma table_loop_end: "\<not> i < length rows \<Longrightarrow> table_loop A T rows i lines = Some (i, lines)"
  by (simp add: table_loop.simps)

lemma table_loop_row:
  "i < length rows \<Longrightarrow>
   table_loop A T rows i lines =
     (if rows ! i = [] \<or> strip (hd (rows ! i)) \<in> set table_end then Some (i, lines)
      else if list_all (\<lambda>cell. strip cell = []) (rows ! i) then table_loop A T rows (i + 1) lines
      else table_loop A T rows (i + 1) (lines @ [row_line A T (rows ! i)]))"
  by (subst table_loop.simps) (simp add: item_def hd_conv_nth line_of_row_eq)

lemma table_loop_index:
  "table_loop A T rows i lines = Some (j, ls) \<Longrightarrow> i \<le> j"
proof (induction "length rows - i" arbitrary: i lines)
  case 0
  then show ?case by (simp add: table_loop_end)
next
  case (Suc n)
  then have i: "i < length rows" and n: "n = length rows - (i + 1)" by simp_all
  from Suc.hyps(1) [OF n] Suc.prems show ?case
    by (auto simp: table_loop_row [OF i] split: if_splits dest: Suc_leD)
qed

lemma allowance_loop_end:
  "\<not> i < length rows \<Longrightarrow> allowance_loop A T rows i as = Some (i, as)"
  by (simp add: allowance_loop.simps)

lemma allowance_loop_row:
  "i < length rows \<Longrightarrow>
   allowance_loop A T rows i as =
     (if rows ! i = [] then allowance_loop A T rows (i + 1) as
      else if strip (hd (rows ! i)) = ''OwnerAllowancesTotal'' then Some (i, as)
      else allowance_loop A T rows (i + 1) (as @ [row_allowance A T (rows ! i)]))"
  by (subst allowance_loop.simps) (simp add: item_def hd_conv_nth allowance_of_row_eq)

lemma allowance_loop_index:
  "allowance_loop A T rows i as = Some (j, bs) \<Longrightarrow> i \<le> j"
proof (induction "length rows - i" arbitrary: i as)
  case 0
  then show ?case by (simp add: allowance_loop_end)
next
  case (Suc n)
  then have i: "i < length rows" and n: "n = length rows - (i + 1)" by simp_all
  from Suc.hyps(1) [OF n] Suc.prems show ?case
    by (auto simp: allowance_loop_row [OF i] split: if_splits dest: Suc_leD)
qed

lemma row_step_index:
  assumes "row_step A T D rows i st = Some (j, st')"
  shows "i < j"
proof (cases "i < length rows")
  case False
  with assms show ?thesis by (simp add: row_step_def item_None)
next
  case i: True
  show ?thesis
  proof (cases "rows ! i = []")
    case True
    with assms i show ?thesis by (simp add: row_step_def item_Some)
  next
    case False
    then have 0: "item (rows ! i) 0 = Some (hd (rows ! i))"
      by (simp add: item_def hd_conv_nth)
    from assms i False show ?thesis
      apply (simp add: row_step_def item_Some 0 item_last_Some Let_def
                  split: if_splits option.splits bind_splits prod.splits)
       apply (drule table_loop_index, simp)
      apply (drule allowance_loop_index, fastforce)
      done
  qed
qed

text \<open>The outer \<^verbatim>\<open>while i < len(rows)\<close> loop.\<close>

function scan_rows :: "'n py_arith \<Rightarrow> 'n py_text \<Rightarrow> 'd py_dates \<Rightarrow> csv_row list \<Rightarrow> nat \<Rightarrow>
    ('n, 'd) loaded \<Rightarrow> ('n, 'd) loaded option" where
  "scan_rows A T D rows i st =
     (if i < length rows then
        do { (j, st') \<leftarrow> row_step A T D rows i st; scan_rows A T D rows j st' }
      else Some st)"
  by pat_completeness auto
termination
  by (relation "measure (\<lambda>(A, T, D, rows, i, st). length rows - i)")
     (auto dest: row_step_index)

declare scan_rows.simps [simp del]

text \<open>The dictionaries and lists as initialised before the loop.\<close>

definition initial :: "'n py_arith \<Rightarrow> 'd py_dates \<Rightarrow> ('n, 'd) loaded" where
  "initial A D =
     \<lparr>ld_meta = [''doc_type'' \<mapsto> Text ''quote'', ''job_id'' \<mapsto> Text '''',
                 ''project_name'' \<mapsto> Text '''', ''client_name'' \<mapsto> Text '''',
                 ''project_address'' \<mapsto> Text '''', ''doc_date'' \<mapsto> Date (today D)],
      ld_lines = [],
      ld_totals = [''subtotal'' \<mapsto> float_zero A, ''receipts_total'' \<mapsto> float_zero A,
                   ''grand_total'' \<mapsto> float_zero A],
      ld_allowances = []\<rparr>"

text \<open>The result \<^verbatim>\<open>{}, [], {}, []\<close>\<close>

definition nothing_loaded :: "('n, 'd) loaded" where
  "nothing_loaded = \<lparr>ld_meta = Map.empty, ld_lines = [], ld_totals = Map.empty, ld_allowances = []\<rparr>"

text \<open>
  \<^verbatim>\<open>load_quote_from_csv\<close>: what is printed and what is returned; \<open>None\<close> when an
  exception leaves the function.
\<close>

definition load_quote_from_csv :: "'n py_arith \<Rightarrow> 'n py_text \<Rightarrow> 'd py_dates \<Rightarrow> files \<Rightarrow> string \<Rightarrow>
    (message list \<times> ('n, 'd) loaded) option" where
  "load_quote_from_csv A T D fs path =
     (case fs path of
        None \<Rightarrow> Some ([Quote_file_not_found path], nothing_loaded)
      | Some Field_too_long \<Rightarrow> None
      | Some (Rows rows) \<Rightarrow> do { st \<leftarrow> scan_rows A T D rows 0 (initial A D); Some ([], st) })"

subsection \<open>One pass of the outer loop, branch by branch\<close>

text \<open>The branches of the outer loop that only assign to a dictionary.\<close>

definition key_value :: "'n py_arith \<Rightarrow> 'n py_text \<Rightarrow> 'd py_dates \<Rightarrow> csv_row \<Rightarrow>
    ('n, 'd) loaded \<Rightarrow> ('n, 'd) loaded" where
  "key_value A T D row st =
     (let key = strip (hd row) in
      if key = ''DocType'' \<and> 1 < length row then set_meta ''doc_type'' (Text (strip (row ! 1))) st
      else if key = ''JobID'' \<and> 1 < length row then set_meta ''job_id'' (Text (strip (row ! 1))) st
      else if key = ''Project'' \<and> 1 < length row then
        set_meta ''project_name'' (Text (strip (row ! 1))) st
      else if key = ''Client'' \<and> 1 < length row then
        set_meta ''client_name'' (Text (strip (row ! 1))) st
      else if key = ''Address'' \<and> 1 < length row then
        set_meta ''project_address'' (Text (strip (row ! 1))) st
      else if key = ''Date'' \<and> 1 < length row then
        (case parse_mmddyyyy D (strip (row ! 1)) of
           Some d \<Rightarrow> set_meta ''doc_date'' (Date d) st
         | None \<Rightarrow> st)
      else if key = ''ReceiptsTotal'' \<and> 1 < length row then
        set_total ''receipts_total'' (float_or_zero A T (row ! 1)) st
      else if key = ''Subtotal'' then set_total ''subtotal'' (float_or_zero A T (last row)) st
      else if key = ''GrandTotal'' then set_total ''grand_total'' (float_or_zero A T (last row)) st
      else st)"

definition marker :: string where
  "marker = ''Owner Allowances (client purchases directly)''"

lemma row_step_empty:
  "i < length rows \<Longrightarrow> rows ! i = [] \<Longrightarrow> row_step A T D rows i st = Some (i + 1, st)"
  by (simp add: row_step_def item_Some)

lemma row_step_key_value:
  assumes "i < length rows" and "rows ! i \<noteq> []"
    and "strip (hd (rows ! i)) \<noteq> ''Section''" and "strip (hd (rows ! i)) \<noteq> marker"
  shows "row_step A T D rows i st = Some (i + 1, key_value A T D (rows ! i) st)"
proof -
  from assms(2) have 0: "item (rows ! i) 0 = Some (hd (rows ! i))"
    by (simp add: item_def hd_conv_nth)
  from assms show ?thesis
    by (simp add: row_step_def key_value_def marker_def item_Some 0 item_last_Some Let_def
             split: option.splits)
qed

lemma row_step_section:
  assumes "i < length rows" and "rows ! i \<noteq> []" and "strip (hd (rows ! i)) = ''Section''"
  shows "row_step A T D rows i st =
           do { (j, lines) \<leftarrow> table_loop A T rows (i + 1) (ld_lines st);
                Some (j, st\<lparr>ld_lines := lines\<rparr>) }"
proof -
  from assms(2) have 0: "item (rows ! i) 0 = Some (hd (rows ! i))"
    by (simp add: item_def hd_conv_nth)
  from assms show ?thesis
    by (simp add: row_step_def item_Some 0 Let_def)
qed

lemma row_step_marker:
  assumes "i < length rows" and "rows ! i \<noteq> []" and "strip (hd (rows ! i)) = marker"
  shows "row_step A T D rows i st =
           do { (j, allowances) \<leftarrow> allowance_loop A T rows (i + 2) (ld_allowances st);
                Some (j + 1, st\<lparr>ld_allowances := allowances\<rparr>) }"
proof -
  from assms(2) have 0: "item (rows ! i) 0 = Some (hd (rows ! i))"
    by (simp add: item_def hd_conv_nth)
  from assms show ?thesis
    by (simp add: row_step_def marker_def item_Some 0 Let_def)
qed

lemma scan_rows_end: "\<not> i < length rows \<Longrightarrow> scan_rows A T D rows i st = Some st"
  by (simp add: scan_rows.simps)

lemma scan_rows_step:
  "i < length rows \<Longrightarrow> row_step A T D rows i st = Some (j, st') \<Longrightarrow>
   scan_rows A T D rows i st = scan_rows A T D rows j st'"
  by (subst scan_rows.simps) simp

subsection \<open>No exception leaves the loops\<close>

lemma table_loop_total: "\<exists>j ls. table_loop A T rows i lines = Some (j, ls)"
proof (induction "length rows - i" arbitrary: i lines)
  case 0
  then show ?case by (simp add: table_loop_end)
next
  case (Suc n)
  then have i: "i < length rows" and n: "n = length rows - (i + 1)" by simp_all
  from Suc.hyps(1) [OF n] show ?case
    by (simp add: table_loop_row [OF i])
qed

lemma allowance_loop_total: "\<exists>j bs. allowance_loop A T rows i as = Some (j, bs)"
proof (induction "length rows - i" arbitrary: i as)
  case 0
  then show ?case by (simp add: allowance_loop_end)
next
  case (Suc n)
  then have i: "i < length rows" and n: "n = length rows - (i + 1)" by simp_all
  from Suc.hyps(1) [OF n] show ?case
    by (simp add: allowance_loop_row [OF i])
qed

lemma row_step_total:
  assumes "i < length rows"
  shows "\<exists>j st'. row_step A T D rows i st = Some (j, st')"
proof (cases "rows ! i = []")
  case True
  with assms show ?thesis by (simp add: row_step_empty)
next
  case False
  show ?thesis
  proof (cases "strip (hd (rows ! i)) = ''Section''")
    case True
    obtain j ls where "table_loop A T rows (i + 1) (ld_lines st) = Some (j, ls)"
      using table_loop_total by blast
    with assms False True show ?thesis by (simp add: row_step_section)
  next
    case no_section: False
    show ?thesis
    proof (cases "strip (hd (rows ! i)) = marker")
      case True
      obtain j bs where "allowance_loop A T rows (i + 2) (ld_allowances st) = Some (j, bs)"
        using allowance_loop_total by blast
      with assms False True show ?thesis by (simp add: row_step_marker)
    next
      case False
      with assms \<open>rows ! i \<noteq> []\<close> no_section show ?thesis by (simp add: row_step_key_value)
    qed
  qed
qed

lemma scan_rows_total: "\<exists>st'. scan_rows A T D rows i st = Some st'"
proof (induction "length rows - i" arbitrary: i st rule: less_induct)
  case less
  show ?case
  proof (cases "i < length rows")
    case False
    then show ?thesis by (simp add: scan_rows_end)
  next
    case True
    then obtain j st1 where step: "row_step A T D rows i st = Some (j, st1)"
      using row_step_total by blast
    then have "i < j" by (rule row_step_index)
    with True have "length rows - j < length rows - i" by simp
    from less [OF this] step True show ?thesis by (simp add: scan_rows_step)
  qed
qed

subsection \<open>An interpreter for whole amounts\<close>

text \<open>
  The theorems below hold for every interpretation of the numbers and dates. To apply
  them to concrete documents, here is one: amounts that are whole numbers, on which the
  operations of \<^verbatim>\<open>float\<close> are exact, printed as \<^verbatim>\<open>str\<close> prints such a \<^verbatim>\<open>float\<close>
  (\<^verbatim>\<open>500.0\<close>), and dates as year, month and day, printed as \<^verbatim>\<open>%m-%d-%Y\<close>.
\<close>

function digits :: "nat \<Rightarrow> string" where
  "digits n =
     (if n < 10 then [''0123456789'' ! n]
      else digits (n div 10) @ [''0123456789'' ! (n mod 10)])"
  by pat_completeness auto
termination
  by (relation "measure id") auto

declare digits.simps [simp del]

definition digit_val :: "char \<Rightarrow> nat option" where
  "digit_val c =
     map_of [(CHR ''0'', 0), (CHR ''1'', 1), (CHR ''2'', 2), (CHR ''3'', 3), (CHR ''4'', 4),
             (CHR ''5'', 5), (CHR ''6'', 6), (CHR ''7'', 7), (CHR ''8'', 8), (CHR ''9'', 9)] c"

fun digits_val :: "string \<Rightarrow> nat \<Rightarrow> nat option" where
  "digits_val [] acc = Some acc"
| "digits_val (c # cs) acc =
     (case digit_val c of None \<Rightarrow> None | Some d \<Rightarrow> digits_val cs (10 * acc + d))"

definition whole_str :: "int \<Rightarrow> string" where
  "whole_str n = (if n < 0 then ''-'' else []) @ digits (nat \<bar>n\<bar>) @ ''.0''"

text \<open>A sign, digits, and at most a point followed by zeros, between white space.\<close>

definition whole_float :: "string \<Rightarrow> int option" where
  "whole_float s =
     (let t = strip s;
          neg = (t \<noteq> [] \<and> hd t = CHR ''-'');
          u = (if t \<noteq> [] \<and> (hd t = CHR ''-'' \<or> hd t = CHR ''+'') then tl t else t);
          ip = takeWhile (\<lambda>c. c \<noteq> CHR ''.'') u;
          fp = dropWhile (\<lambda>c. c \<noteq> CHR ''.'') u
      in if ip = [] then None
         else if fp \<noteq> [] \<and> \<not> list_all (\<lambda>c. c = CHR ''0'') (tl fp) then None
         else map_option (\<lambda>n. if neg then - int n else int n) (digits_val ip 0))"

definition whole_arith :: "int py_arith" where
  "whole_arith = \<lparr>py_add = (+), py_mul = (*), py_sum = sum_list, float_zero = 0\<rparr>"

definition whole_text :: "int py_text" where
  "whole_text = \<lparr>num_str = whole_str, to_float = whole_float\<rparr>"

record ymd =
  d_year :: nat
  d_month :: nat
  d_day :: nat

definition two_digits :: "nat \<Rightarrow> string" where
  "two_digits n = [''0123456789'' ! (n div 10 mod 10), ''0123456789'' ! (n mod 10)]"

text \<open>
  \<^verbatim>\<open>strftime\<close> for a format made of the directives \<^verbatim>\<open>%m\<close>, \<^verbatim>\<open>%d\<close>, \<^verbatim>\<open>%Y\<close> and of
  other characters, which it copies. CPython passes the format to the C library, and the
  C library of Linux prints the month and the day with two digits and the year with as
  many digits as it has, so a year before 1000 with fewer than four.
\<close>

fun ymd_format :: "ymd \<Rightarrow> string \<Rightarrow> string" where
  "ymd_format d (c # e # fmt) =
     (if c = CHR ''%'' \<and> e = CHR ''m'' then two_digits (d_month d) @ ymd_format d fmt
      else if c = CHR ''%'' \<and> e = CHR ''d'' then two_digits (d_day d) @ ymd_format d fmt
      else if c = CHR ''%'' \<and> e = CHR ''Y'' then digits (d_year d) @ ymd_format d fmt
      else c # ymd_format d (e # fmt))"
| "ymd_format d fmt = fmt"

text \<open>
  \<^verbatim>\<open>strptime\<close> for such a format in which a separator follows the month and the day,
  after the regular expressions of \<^verbatim>\<open>_strptime.py\<close>: \<^verbatim>\<open>1[0-2]|0[1-9]|[1-9]\<close> for
  \<^verbatim>\<open>%m\<close>, \<^verbatim>\<open>3[0-1]|[1-2]\d|0[1-9]|[1-9]| [1-9]\<close> for \<^verbatim>\<open>%d\<close> and \<^verbatim>\<open>\d\d\d\d\<close> for
  \<^verbatim>\<open>%Y\<close>. The whole text has to be consumed, and the three numbers have to be a date of
  the calendar from the year 1 on.
\<close>

definition first_is :: "string \<Rightarrow> string \<Rightarrow> bool" where
  "first_is s cs \<longleftrightarrow> s \<noteq> [] \<and> hd s \<in> set cs"

definition take_number :: "nat \<Rightarrow> string \<Rightarrow> (nat \<times> string) option" where
  "take_number k s = map_option (\<lambda>n. (n, drop k s)) (digits_val (take k s) 0)"

definition take_month :: "string \<Rightarrow> (nat \<times> string) option" where
  "take_month s =
     (if first_is s ''1'' \<and> first_is (tl s) ''012'' then take_number 2 s
      else if first_is s ''0'' \<and> first_is (tl s) ''123456789'' then take_number 2 s
      else if first_is s ''123456789'' then take_number 1 s
      else None)"

definition take_day :: "string \<Rightarrow> (nat \<times> string) option" where
  "take_day s =
     (if first_is s ''3'' \<and> first_is (tl s) ''01'' then take_number 2 s
      else if first_is s ''12'' \<and> first_is (tl s) ''0123456789'' then take_number 2 s
      else if first_is s ''0'' \<and> first_is (tl s) ''123456789'' then take_number 2 s
      else if first_is s ''123456789'' then take_number 1 s
      else if first_is s '' '' \<and> first_is (tl s) ''123456789'' then take_number 1 (tl s)
      else None)"

definition take_year :: "string \<Rightarrow> (nat \<times> string) option" where
  "take_year s =
     (if 4 \<le> length s \<and> list_all (\<lambda>c. c \<in> set ''0123456789'') (take 4 s) then take_number 4 s
      else None)"

fun ymd_fields :: "string \<Rightarrow> string \<Rightarrow> ymd \<Rightarrow> ymd option" where
  "ymd_fields (c # e # fmt) s d =
     (if c = CHR ''%'' \<and> e = CHR ''m'' then
        (case take_month s of
           None \<Rightarrow> None | Some (n, rest) \<Rightarrow> ymd_fields fmt rest (d\<lparr>d_month := n\<rparr>))
      else if c = CHR ''%'' \<and> e = CHR ''d'' then
        (case take_day s of
           None \<Rightarrow> None | Some (n, rest) \<Rightarrow> ymd_fields fmt rest (d\<lparr>d_day := n\<rparr>))
      else if c = CHR ''%'' \<and> e = CHR ''Y'' then
        (case take_year s of
           None \<Rightarrow> None | Some (n, rest) \<Rightarrow> ymd_fields fmt rest (d\<lparr>d_year := n\<rparr>))
      else if s \<noteq> [] \<and> hd s = c then ymd_fields (e # fmt) (tl s) d
      else None)"
| "ymd_fields [c] s d = (if s = [c] then Some d else None)"
| "ymd_fields [] s d = (if s = [] then Some d else None)"

definition leap_year :: "nat \<Rightarrow> bool" where
  "leap_year y \<longleftrightarrow> (if y mod 100 = 0 then y mod 400 = 0 else y mod 4 = 0)"

definition days_in_month :: "nat \<Rightarrow> nat \<Rightarrow> nat" where
  "days_in_month y m =
     (if m = 2 then (if leap_year y then 29 else 28)
      else if m \<in> set [4, 6, 9, 11] then 30 else 31)"

text \<open>The dates that \<^verbatim>\<open>datetime.date\<close> has.\<close>

definition calendar_date :: "ymd \<Rightarrow> bool" where
  "calendar_date d \<longleftrightarrow>
     1 \<le> d_year d \<and> d_year d \<le> 9999 \<and> 1 \<le> d_month d \<and> d_month d \<le> 12 \<and>
     1 \<le> d_day d \<and> d_day d \<le> days_in_month (d_year d) (d_month d)"

definition ymd_parse :: "string \<Rightarrow> string \<Rightarrow> ymd option" where
  "ymd_parse s fmt =
     (case ymd_fields fmt s \<lparr>d_year = 1900, d_month = 1, d_day = 1\<rparr> of
        None \<Rightarrow> None
      | Some d \<Rightarrow> if calendar_date d then Some d else None)"

definition ymd_dates :: "ymd py_dates" where
  "ymd_dates = \<lparr>strftime = ymd_format, strptime = ymd_parse,
                 today = \<lparr>d_year = 2024, d_month = 3, d_day = 15\<rparr>\<rparr>"

lemma strip_Nil [simp]: "strip [] = []"
  by (simp add: strip_def)

lemma whole_examples:
  "whole_str 500 = ''500.0''"
  "whole_str 0 = ''0.0''"
  "whole_float ''500.0'' = Some 500"
  "whole_float ''abc'' = None"
  "whole_float '' 12 '' = Some 12"
  "whole_float ''-3.00'' = Some (- 3)"
  "whole_float ''12.5'' = None"
  by (simp_all add: whole_str_def whole_float_def digits.simps digit_val_def strip_def
        py_isspace_def Let_def)

lemmas ymd_eval = ymd_parse_def take_month_def take_day_def take_year_def take_number_def
  first_is_def calendar_date_def days_in_month_def leap_year_def two_digits_def digit_val_def
  digits.simps DATE_FORMAT_def

lemma ymd_examples:
  "ymd_format \<lparr>d_year = 2024, d_month = 3, d_day = 15\<rparr> ''%m-%d-%Y'' = ''03-15-2024''"
  "ymd_format \<lparr>d_year = 999, d_month = 1, d_day = 1\<rparr> ''%m-%d-%Y'' = ''01-01-999''"
  "ymd_parse ''03-15-2024'' ''%m-%d-%Y'' = Some \<lparr>d_year = 2024, d_month = 3, d_day = 15\<rparr>"
  "ymd_parse ''3-5-2024'' ''%m-%d-%Y'' = Some \<lparr>d_year = 2024, d_month = 3, d_day = 5\<rparr>"
  "ymd_parse ''01- 1-2024'' ''%m-%d-%Y'' = Some \<lparr>d_year = 2024, d_month = 1, d_day = 1\<rparr>"
  "ymd_parse ''01-01-0999'' ''%m-%d-%Y'' = Some \<lparr>d_year = 999, d_month = 1, d_day = 1\<rparr>"
  "ymd_parse ''02-29-2024'' ''%m-%d-%Y'' = Some \<lparr>d_year = 2024, d_month = 2, d_day = 29\<rparr>"
  "ymd_parse ''01-01-999'' ''%m-%d-%Y'' = None"
  "ymd_parse ''02-29-1900'' ''%m-%d-%Y'' = None"
  "ymd_parse ''13-01-2024'' ''%m-%d-%Y'' = None"
  "ymd_parse ''01-01-0000'' ''%m-%d-%Y'' = None"
  "ymd_parse ''01-01-20245'' ''%m-%d-%Y'' = None"
  "ymd_parse '' 1-01-2024'' ''%m-%d-%Y'' = None"
  "ymd_parse ''15/03/2024'' ''%m-%d-%Y'' = None"
  by (simp_all add: ymd_eval)

section \<open>The claims\<close>

subsection \<open>Totals\<close>

text \<open>
  C3. For every list of line items and every receipts total, the totals that
  \<^verbatim>\<open>compute_totals\<close> returns (no manual override) have a grand total equal to the
  subtotal plus the receipts total.
\<close>

theorem compute_totals_grand_total:
  "\<exists>s. compute_totals A lines receipts_total ''subtotal'' = Some s \<and>
        compute_totals A lines receipts_total ''receipts_total'' = Some receipts_total \<and>
        compute_totals A lines receipts_total ''grand_total'' = Some (py_add A s receipts_total)"
  by (simp add: compute_totals_def Let_def)

subsection \<open>Loading\<close>

text \<open>
  C5, as the code has it. For a path that is not a file, \<^verbatim>\<open>load_quote_from_csv\<close>
  prints the file-not-found warning and returns, without an exception, four empty values:
  no metadata, no line items, a totals dictionary with no entry, no allowances. A total
  read from that dictionary with the default \<^verbatim>\<open>0.0\<close> is \<^verbatim>\<open>0.0\<close>.
\<close>

theorem load_missing_file:
  "load_quote_from_csv A T D (fs(path := None)) path
     = Some ([Quote_file_not_found path], nothing_loaded) \<and>
   ld_meta (nothing_loaded :: ('n, 'd) loaded) = Map.empty \<and>
   ld_lines (nothing_loaded :: ('n, 'd) loaded) = [] \<and>
   ld_totals (nothing_loaded :: ('n, 'd) loaded) = Map.empty \<and>
   ld_allowances (nothing_loaded :: ('n, 'd) loaded) = [] \<and>
   (case ld_totals (nothing_loaded :: ('n, 'd) loaded) k of None \<Rightarrow> float_zero A | Some v \<Rightarrow> v)
     = float_zero A"
  by (simp add: load_quote_from_csv_def nothing_loaded_def)

text \<open>
  The totals returned for a missing file are not the zeroed totals: the dictionary has no
  \<^verbatim>\<open>subtotal\<close> entry at all, where loading an existing file without rows gives the
  entry \<^verbatim>\<open>0.0\<close>.
\<close>

theorem load_missing_file_totals_not_zeroed:
  "map_option (\<lambda>(msgs, st). ld_totals st ''subtotal'')
     (load_quote_from_csv whole_arith whole_text ymd_dates Map.empty ''J0001_quote_03-15-2024.csv'')
     = Some None \<and>
   map_option (\<lambda>(msgs, st). ld_totals st ''subtotal'')
     (load_quote_from_csv whole_arith whole_text ymd_dates
        [''J0001_quote_03-15-2024.csv'' \<mapsto> Rows []] ''J0001_quote_03-15-2024.csv'')
     = Some (Some (float_zero whole_arith))"
  by (simp add: load_quote_from_csv_def nothing_loaded_def scan_rows_end initial_def)

text \<open>
  C10. For every file content, that is every list of rows of cells, of any lengths,
  \<^verbatim>\<open>load_quote_from_csv\<close> ends and returns a result: no \<^verbatim>\<open>IndexError\<close> of a cell
  access and no conversion error leaves it. (Each loop is a function with a termination
  proof, and an uncaught exception is the result \<open>None\<close>.)
\<close>

theorem load_never_raises:
  "\<exists>st. load_quote_from_csv A T D (fs(path \<mapsto> Rows rows)) path = Some ([], st)"
  using scan_rows_total [of A T D rows 0 "initial A D"]
  by (auto simp: load_quote_from_csv_def)

subsection \<open>The loops over a file given in parts\<close>

lemma nth_middle_rows: "(pre @ r # rest) ! length pre = r"
  by simp

definition all_blank :: "csv_row \<Rightarrow> bool" where
  "all_blank r \<longleftrightarrow> list_all (\<lambda>cell. strip cell = []) r"

definition table_row :: "csv_row \<Rightarrow> bool" where
  "table_row r \<longleftrightarrow> r \<noteq> [] \<and> strip (hd r) \<notin> set table_end"

definition table_stop :: "csv_row list \<Rightarrow> bool" where
  "table_stop rest \<longleftrightarrow> (case rest of [] \<Rightarrow> True | r # _ \<Rightarrow> \<not> table_row r)"

text \<open>The table loop consumes the rows up to the first one that is empty or starts with a
  closing word, or up to the end, and converts those that are not blank.\<close>

lemma table_loop_body:
  assumes "list_all table_row body" and "table_stop rest"
  shows "table_loop A T (pre @ body @ rest) (length pre) lines
           = Some (length pre + length body,
                   lines @ map (row_line A T) (filter (\<lambda>r. \<not> all_blank r) body))"
  using assms(1)
proof (induction body arbitrary: pre lines)
  case Nil
  show ?case
  proof (cases rest)
    case Nil
    then show ?thesis by (simp add: table_loop_end)
  next
    case (Cons r rs)
    with assms(2) have "r = [] \<or> strip (hd r) \<in> set table_end"
      by (auto simp: table_stop_def table_row_def)
    with Cons show ?thesis by (simp add: table_loop_row)
  qed
next
  case (Cons r body)
  then have body: "list_all table_row body" and "table_row r" by simp_all
  then have r: "r \<noteq> []" "strip (hd r) \<notin> set table_end"
    by (simp_all add: table_row_def)
  have i: "length pre < length (pre @ (r # body) @ rest)" by simp
  have eq: "pre @ (r # body) @ rest = (pre @ [r]) @ body @ rest" by simp
  have nth: "(pre @ (r # body) @ rest) ! length pre = r" by simp
  from Cons.IH [OF body, of "pre @ [r]"] r show ?case
    unfolding table_loop_row [OF i] nth
    by (simp add: eq all_blank_def del: append_assoc append.simps)
qed

definition allowance_stop :: "csv_row list \<Rightarrow> bool" where
  "allowance_stop rest \<longleftrightarrow>
     (case rest of [] \<Rightarrow> True | r # _ \<Rightarrow> r \<noteq> [] \<and> strip (hd r) = ''OwnerAllowancesTotal'')"

definition allowance_body_row :: "csv_row \<Rightarrow> bool" where
  "allowance_body_row r \<longleftrightarrow> r = [] \<or> strip (hd r) \<noteq> ''OwnerAllowancesTotal''"

lemma allowance_loop_body:
  assumes "list_all allowance_body_row body" and "allowance_stop rest"
  shows "allowance_loop A T (pre @ body @ rest) (length pre) as
           = Some (length pre + length body,
                   as @ map (row_allowance A T) (filter (\<lambda>r. r \<noteq> []) body))"
  using assms(1)
proof (induction body arbitrary: pre as)
  case Nil
  show ?case
  proof (cases rest)
    case Nil
    then show ?thesis by (simp add: allowance_loop_end)
  next
    case (Cons r rs)
    with assms(2) have "r \<noteq> []" "strip (hd r) = ''OwnerAllowancesTotal''"
      by (auto simp: allowance_stop_def)
    with Cons show ?thesis by (simp add: allowance_loop_row)
  qed
next
  case (Cons r body)
  then have body: "list_all allowance_body_row body" and "allowance_body_row r" by simp_all
  then have r: "r = [] \<or> strip (hd r) \<noteq> ''OwnerAllowancesTotal''"
    by (simp_all add: allowance_body_row_def)
  have i: "length pre < length (pre @ (r # body) @ rest)" by simp
  have eq: "pre @ (r # body) @ rest = (pre @ [r]) @ body @ rest" by simp
  have nth: "(pre @ (r # body) @ rest) ! length pre = r" by simp
  from Cons.IH [OF body, of "pre @ [r]"] r show ?case
    apply (subst allowance_loop_row [OF i])
    apply (simp only: nth)
    apply (simp only: eq)
    apply (auto simp del: append_assoc append.simps)
    done
qed

text \<open>The rows on which a pass of the outer loop only assigns, or does nothing.\<close>

definition plain_row :: "csv_row \<Rightarrow> bool" where
  "plain_row r \<longleftrightarrow> r = [] \<or> (strip (hd r) \<noteq> ''Section'' \<and> strip (hd r) \<noteq> marker)"

definition plain_step :: "'n py_arith \<Rightarrow> 'n py_text \<Rightarrow> 'd py_dates \<Rightarrow> ('n, 'd) loaded \<Rightarrow> csv_row \<Rightarrow>
    ('n, 'd) loaded" where
  "plain_step A T D st r = (if r = [] then st else key_value A T D r st)"

lemma scan_rows_plain:
  assumes "list_all plain_row kv"
  shows "scan_rows A T D (pre @ kv @ rest) (length pre) st
           = scan_rows A T D (pre @ kv @ rest) (length pre + length kv)
               (foldl (plain_step A T D) st kv)"
  using assms
proof (induction kv arbitrary: pre st)
  case Nil
  show ?case by simp
next
  case (Cons r kv)
  then have r: "plain_row r" and kv: "list_all plain_row kv" by simp_all
  have i: "length pre < length (pre @ (r # kv) @ rest)" by simp
  have eq: "pre @ (r # kv) @ rest = (pre @ [r]) @ kv @ rest" by simp
  have nth: "(pre @ (r # kv) @ rest) ! length pre = r" by simp
  have step: "row_step A T D (pre @ (r # kv) @ rest) (length pre) st
                = Some (length pre + 1, plain_step A T D st r)"
    using r i nth by (auto simp: plain_row_def plain_step_def row_step_empty row_step_key_value)
  show ?case
    unfolding scan_rows_step [OF i step]
    using Cons.IH [OF kv, of "pre @ [r]" "plain_step A T D st r"]
    by (simp add: eq del: append_assoc append.simps)
qed

lemma scan_rows_section:
  assumes "hdr \<noteq> []" and "strip (hd hdr) = ''Section''"
    and "list_all table_row body" and "table_stop rest"
  shows "scan_rows A T D (pre @ hdr # body @ rest) (length pre) st
           = scan_rows A T D (pre @ hdr # body @ rest) (length pre + 1 + length body)
               (st\<lparr>ld_lines := ld_lines st
                     @ map (row_line A T) (filter (\<lambda>r. \<not> all_blank r) body)\<rparr>)"
proof -
  have i: "length pre < length (pre @ hdr # body @ rest)" by simp
  have nth: "(pre @ hdr # body @ rest) ! length pre = hdr" by simp
  have eq: "pre @ hdr # body @ rest = (pre @ [hdr]) @ body @ rest" by simp
  have loop: "table_loop A T (pre @ hdr # body @ rest) (length pre + 1) (ld_lines st)
                = Some (length pre + 1 + length body,
                        ld_lines st @ map (row_line A T) (filter (\<lambda>r. \<not> all_blank r) body))"
    using table_loop_body [OF assms(3,4), of A T "pre @ [hdr]" "ld_lines st"]
    by (simp add: eq del: append_assoc append.simps)
  have step: "row_step A T D (pre @ hdr # body @ rest) (length pre) st
                = Some (length pre + 1 + length body,
                        st\<lparr>ld_lines := ld_lines st
                             @ map (row_line A T) (filter (\<lambda>r. \<not> all_blank r) body)\<rparr>)"
    using assms(1,2) loop by (simp add: row_step_section [OF i] nth)
  show ?thesis by (rule scan_rows_step [OF i step])
qed

lemma scan_rows_marker:
  assumes "mk \<noteq> []" and "strip (hd mk) = marker"
    and "list_all allowance_body_row body" and "allowance_stop rest"
  shows "scan_rows A T D (pre @ mk # h # body @ rest) (length pre) st
           = scan_rows A T D (pre @ mk # h # body @ rest) (length pre + 3 + length body)
               (st\<lparr>ld_allowances := ld_allowances st
                     @ map (row_allowance A T) (filter (\<lambda>r. r \<noteq> []) body)\<rparr>)"
proof -
  have i: "length pre < length (pre @ mk # h # body @ rest)" by simp
  have nth: "(pre @ mk # h # body @ rest) ! length pre = mk" by simp
  have eq: "pre @ mk # h # body @ rest = (pre @ [mk, h]) @ body @ rest" by simp
  have loop: "allowance_loop A T (pre @ mk # h # body @ rest) (length pre + 2) (ld_allowances st)
                = Some (length pre + 2 + length body,
                        ld_allowances st @ map (row_allowance A T) (filter (\<lambda>r. r \<noteq> []) body))"
    using allowance_loop_body [OF assms(3,4), of A T "pre @ [mk, h]" "ld_allowances st"]
    by (simp add: eq del: append_assoc append.simps)
  have step: "row_step A T D (pre @ mk # h # body @ rest) (length pre) st
                = Some (length pre + 3 + length body,
                        st\<lparr>ld_allowances := ld_allowances st
                             @ map (row_allowance A T) (filter (\<lambda>r. r \<noteq> []) body)\<rparr>)"
    using assms(1,2) loop by (simp add: row_step_marker [OF i] nth)
  show ?thesis by (rule scan_rows_step [OF i step])
qed

subsection \<open>Loading a file laid out as the export writes it\<close>

text \<open>
  The state after the rows through \<^verbatim>\<open>GrandTotal\<close>, from the cells: \<open>rc\<close>, \<open>s\<close> and
  \<open>g\<close> are the value cells of the rows \<^verbatim>\<open>ReceiptsTotal\<close>, \<^verbatim>\<open>Subtotal\<close> and
  \<^verbatim>\<open>GrandTotal\<close>, and \<open>body\<close> the rows between the table header and the empty row.
\<close>

definition head_state :: "'n py_arith \<Rightarrow> 'n py_text \<Rightarrow> 'd py_dates \<Rightarrow> string \<Rightarrow> string \<Rightarrow> string \<Rightarrow>
    string \<Rightarrow> string \<Rightarrow> string \<Rightarrow> string \<Rightarrow> csv_row list \<Rightarrow> string \<Rightarrow> string \<Rightarrow> ('n, 'd) loaded" where
  "head_state A T D job_id doc_type project_name project_address client_name rc date_str body s g =
     \<lparr>ld_meta = [''doc_type'' \<mapsto> Text (strip doc_type), ''job_id'' \<mapsto> Text (strip job_id),
                 ''project_name'' \<mapsto> Text (strip project_name),
                 ''client_name'' \<mapsto> Text (strip client_name),
                 ''project_address'' \<mapsto> Text (strip project_address),
                 ''doc_date'' \<mapsto> Date (case parse_mmddyyyy D (strip date_str) of
                                          None \<Rightarrow> today D | Some d \<Rightarrow> d)],
      ld_lines = map (row_line A T) (filter (\<lambda>r. \<not> all_blank r) body),
      ld_totals = [''subtotal'' \<mapsto> float_or_zero A T s,
                   ''receipts_total'' \<mapsto> float_or_zero A T rc,
                   ''grand_total'' \<mapsto> float_or_zero A T g],
      ld_allowances = []\<rparr>"

lemma strip_keys:
  "strip ''DocType'' = ''DocType''" "strip ''JobID'' = ''JobID''"
  "strip ''Project'' = ''Project''" "strip ''Client'' = ''Client''"
  "strip ''Address'' = ''Address''" "strip ''Date'' = ''Date''"
  "strip ''ReceiptsTotal'' = ''ReceiptsTotal''" "strip ''Section'' = ''Section''"
  "strip ''Subtotal'' = ''Subtotal''" "strip ''GrandTotal'' = ''GrandTotal''"
  "strip ''Owner Allowances (client purchases directly)''
     = ''Owner Allowances (client purchases directly)''"
  "strip ''OwnerAllowancesTotal'' = ''OwnerAllowancesTotal''"
  by (simp_all add: strip_def py_isspace_def)

lemma scan_file_head:
  fixes A :: "'n py_arith" and T :: "'n py_text" and D :: "'d py_dates"
    and totals :: "string \<rightharpoonup> 'n" and body tail :: "csv_row list"
    and job_id doc_type project_name project_address client_name date_str s g :: string
  defines "rc \<equiv> num_str T (case totals ''receipts_total'' of None \<Rightarrow> float_zero A | Some v \<Rightarrow> v)"
  defines "rows \<equiv> header_rows A T job_id doc_type project_name project_address client_name
                     totals date_str
                   @ body @ [[], [''Subtotal'', '''', '''', '''', '''', '''', s],
                              [''GrandTotal'', '''', '''', '''', '''', '''', g]] @ tail"
  assumes body: "list_all table_row body"
  shows "scan_rows A T D rows 0 (initial A D)
           = scan_rows A T D rows (12 + length body)
               (head_state A T D job_id doc_type project_name project_address client_name rc
                  date_str body s g)"
proof -
  define kv :: "csv_row list" where
    "kv = [[''DocType'', doc_type], [''JobID'', job_id], [''Project'', project_name],
           [''Client'', client_name], [''Address'', project_address], [''Date'', date_str],
           [''ReceiptsTotal'', rc], []]"
  define hdr :: csv_row where
    "hdr = [''Section'', ''Description'', ''FullDescription'', ''WorkerType'', ''Hours/Qty'',
            ''Rate/UnitPrice'', ''LineTotal'']"
  define kv2 :: "csv_row list" where
    "kv2 = [[], [''Subtotal'', '''', '''', '''', '''', '''', s],
            [''GrandTotal'', '''', '''', '''', '''', '''', g]]"
  define st1 :: "('n, 'd) loaded" where "st1 = foldl (plain_step A T D) (initial A D) kv"
  define st2 :: "('n, 'd) loaded" where
    "st2 = st1\<lparr>ld_lines := ld_lines st1 @ map (row_line A T) (filter (\<lambda>r. \<not> all_blank r) body)\<rparr>"
  have rows: "rows = kv @ hdr # body @ kv2 @ tail"
    by (simp add: rows_def header_rows_def kv_def hdr_def kv2_def rc_def)
  have len: "length kv = 8" "length kv2 = 3" by (simp_all add: kv_def kv2_def)
  have kv: "list_all plain_row kv"
    by (simp add: kv_def plain_row_def strip_keys marker_def)
  have kv2: "list_all plain_row kv2"
    by (simp add: kv2_def plain_row_def strip_keys marker_def)
  have hdr: "hdr \<noteq> []" "strip (hd hdr) = ''Section''"
    by (simp_all add: hdr_def strip_keys)
  have stop: "table_stop (kv2 @ tail)"
    by (simp add: kv2_def table_stop_def table_row_def)
  have 1: "scan_rows A T D rows 0 (initial A D) = scan_rows A T D rows 8 st1"
    using scan_rows_plain [OF kv, of A T D "[]" "hdr # body @ kv2 @ tail" "initial A D"]
    by (simp add: rows len st1_def)
  have 2: "scan_rows A T D rows 8 st1 = scan_rows A T D rows (9 + length body) st2"
    using scan_rows_section [OF hdr body stop, of A T D kv st1]
    by (simp add: rows len st2_def)
  have 3: "scan_rows A T D rows (9 + length body) st2
             = scan_rows A T D rows (12 + length body) (foldl (plain_step A T D) st2 kv2)"
    using scan_rows_plain [OF kv2, of A T D "kv @ hdr # body" tail st2]
    by (simp add: rows len)
  have st1: "st1 = \<lparr>ld_meta = [''doc_type'' \<mapsto> Text (strip doc_type),
                       ''job_id'' \<mapsto> Text (strip job_id),
                       ''project_name'' \<mapsto> Text (strip project_name),
                       ''client_name'' \<mapsto> Text (strip client_name),
                       ''project_address'' \<mapsto> Text (strip project_address),
                       ''doc_date'' \<mapsto> Date (case parse_mmddyyyy D (strip date_str) of
                                                None \<Rightarrow> today D | Some d \<Rightarrow> d)],
                     ld_lines = [],
                     ld_totals = [''subtotal'' \<mapsto> float_zero A,
                                  ''receipts_total'' \<mapsto> float_or_zero A T rc,
                                  ''grand_total'' \<mapsto> float_zero A],
                     ld_allowances = []\<rparr>"
    unfolding st1_def kv_def
    by (auto simp: plain_step_def key_value_def strip_keys set_meta_def set_total_def
          initial_def fun_upd_def split: option.splits)
  have 4: "foldl (plain_step A T D) st2 kv2
             = head_state A T D job_id doc_type project_name project_address client_name rc
                 date_str body s g"
    unfolding st2_def st1 kv2_def head_state_def
    by (auto simp: plain_step_def key_value_def strip_keys set_meta_def set_total_def
          fun_upd_def)
  from 1 2 3 4 show ?thesis by simp
qed

lemma length_header_rows [simp]:
  "length (header_rows A T job_id doc_type project_name project_address client_name totals
     date_str) = 9"
  by (simp add: header_rows_def)

lemma scan_file_plain:
  fixes A :: "'n py_arith" and T :: "'n py_text" and D :: "'d py_dates"
  assumes "list_all table_row body"
  shows "scan_rows A T D
           (header_rows A T job_id doc_type project_name project_address client_name totals
              date_str
            @ body @ [[], [''Subtotal'', '''', '''', '''', '''', '''', s],
                       [''GrandTotal'', '''', '''', '''', '''', '''', g]]) 0 (initial A D)
         = Some (head_state A T D job_id doc_type project_name project_address client_name
                   (num_str T (case totals ''receipts_total'' of
                                 None \<Rightarrow> float_zero A | Some v \<Rightarrow> v))
                   date_str body s g)"
  using scan_file_head [OF assms, of A T D job_id doc_type project_name project_address
          client_name totals date_str s g "[]"]
  by (simp add: scan_rows_end)

lemma scan_file_allowances:
  fixes A :: "'n py_arith" and T :: "'n py_text" and D :: "'d py_dates"
  assumes body: "list_all table_row body"
    and abody: "list_all allowance_body_row abody"
    and tot: "tot \<noteq> []" "strip (hd tot) = ''OwnerAllowancesTotal''"
  shows "scan_rows A T D
           (header_rows A T job_id doc_type project_name project_address client_name totals
              date_str
            @ body @ [[], [''Subtotal'', '''', '''', '''', '''', '''', s],
                       [''GrandTotal'', '''', '''', '''', '''', '''', g]]
            @ [[], [''Owner Allowances (client purchases directly)''], h] @ abody @ [tot])
           0 (initial A D)
         = Some ((head_state A T D job_id doc_type project_name project_address client_name
                    (num_str T (case totals ''receipts_total'' of
                                  None \<Rightarrow> float_zero A | Some v \<Rightarrow> v))
                    date_str body s g)
                 \<lparr>ld_allowances := map (row_allowance A T) (filter (\<lambda>r. r \<noteq> []) abody)\<rparr>)"
proof -
  define mk :: csv_row where "mk = [''Owner Allowances (client purchases directly)'']"
  define pre :: "csv_row list" where
    "pre = header_rows A T job_id doc_type project_name project_address client_name totals
             date_str
           @ body @ [[], [''Subtotal'', '''', '''', '''', '''', '''', s],
                      [''GrandTotal'', '''', '''', '''', '''', '''', g]]"
  define rows where "rows = pre @ [[]] @ mk # h # abody @ [tot]"
  define st where
    "st = head_state A T D job_id doc_type project_name project_address client_name
            (num_str T (case totals ''receipts_total'' of None \<Rightarrow> float_zero A | Some v \<Rightarrow> v))
            date_str body s g"
  have len: "length pre = 12 + length body" by (simp add: pre_def)
  have mk: "mk \<noteq> []" "strip (hd mk) = marker" by (simp_all add: mk_def marker_def strip_keys)
  have stop: "allowance_stop [tot]" using tot by (simp add: allowance_stop_def)
  have 1: "scan_rows A T D rows 0 (initial A D) = scan_rows A T D rows (12 + length body) st"
    using scan_file_head [OF body, of A T D job_id doc_type project_name project_address
            client_name totals date_str s g "[[]] @ mk # h # abody @ [tot]"]
    by (simp add: rows_def pre_def st_def)
  have 2: "scan_rows A T D rows (12 + length body) st = scan_rows A T D rows (13 + length body) st"
    using scan_rows_plain [of "[[]]" A T D pre "mk # h # abody @ [tot]" st]
    by (simp add: rows_def len plain_row_def plain_step_def)
  have 3: "scan_rows A T D rows (13 + length body) st
             = scan_rows A T D rows (16 + length body + length abody)
                 (st\<lparr>ld_allowances := ld_allowances st
                       @ map (row_allowance A T) (filter (\<lambda>r. r \<noteq> []) abody)\<rparr>)"
    using scan_rows_marker [OF mk abody stop, of A T D "pre @ [[]]" h st]
    by (simp add: rows_def len add.commute add.left_commute)
  have 4: "length rows = 16 + length body + length abody" by (simp add: rows_def len)
  have 5: "ld_allowances st = []" by (simp add: st_def head_state_def)
  have "scan_rows A T D rows 0 (initial A D)
          = Some (st\<lparr>ld_allowances := map (row_allowance A T) (filter (\<lambda>r. r \<noteq> []) abody)\<rparr>)"
    unfolding 1 2 3 by (simp add: scan_rows_end 4 5)
  then show ?thesis
    unfolding rows_def pre_def mk_def st_def by simp
qed

subsection \<open>Export\<close>

lemma written_rows_complete:
  assumes "totals ''subtotal'' = Some subtotal" and "totals ''grand_total'' = Some grand_total"
  shows "written_rows A T job_id doc_type project_name project_address client_name lines totals
           allowances date_str
         = (header_rows A T job_id doc_type project_name project_address client_name totals
              date_str
            @ map (line_row A T) lines
            @ [[], [''Subtotal'', '''', '''', '''', '''', '''', num_str T subtotal],
                   [''GrandTotal'', '''', '''', '''', '''', '''', num_str T grand_total]]
            @ allowance_rows A T allowances, None)"
  using assms by (simp add: written_rows_def Let_def)

text \<open>An example document, in whole amounts, and its date.\<close>

definition example_lines :: "int EstimateLine list" where
  "example_lines =
     [\<lparr>line_section = ''Kitchen'', description = ''Demo'', worker_type = ''Labor'',
       hours = 1, rate = 500, detail = []\<rparr>,
      \<lparr>line_section = ''Kitchen'', description = ''Tile'', worker_type = ''Material'',
       hours = 10, rate = 12, detail = ''Floor tile''\<rparr>]"

definition example_allowances :: "int OwnerAllowance list" where
  "example_allowances = [\<lparr>a_description = ''Range'', quantity = 1, unit_cost = 900\<rparr>]"

definition example_date :: ymd where
  "example_date = \<lparr>d_year = 2024, d_month = 3, d_day = 15\<rparr>"

text \<open>
  What \<^verbatim>\<open>save_document_csv\<close> writes. For every document whose totals carry a
  subtotal and a grand total, it writes to the file exactly these rows, in this order: the
  rows \<^verbatim>\<open>DocType\<close>, \<^verbatim>\<open>JobID\<close>, \<^verbatim>\<open>Project\<close>, \<^verbatim>\<open>Client\<close>, \<^verbatim>\<open>Address\<close>, \<^verbatim>\<open>Date\<close>
  (the date as \<^verbatim>\<open>strftime\<close> prints it for \<^verbatim>\<open>%m-%d-%Y\<close>) and \<^verbatim>\<open>ReceiptsTotal\<close>; an
  empty row; the header of seven columns; one row for each line item, in order, whose last
  cell is the product of quantity and rate; an empty row, the \<^verbatim>\<open>Subtotal\<close> row and the
  \<^verbatim>\<open>GrandTotal\<close> row with the value in the seventh cell; and, exactly when there are
  allowances, an empty row, the marker row, the header of four columns, one row for each
  allowance, and the \<^verbatim>\<open>OwnerAllowancesTotal\<close> row with the sum of the allowance totals.
\<close>

lemma save_document_csv_rows:
  assumes "totals ''subtotal'' = Some subtotal" and "totals ''grand_total'' = Some grand_total"
  shows "save_document_csv A T D fs job_dir job_id doc_type project_name project_address
           client_name lines totals allowances doc_date
         = (fs(path_join job_dir
                 (job_id @ ''_'' @ doc_type @ ''_'' @ strftime D doc_date ''%m-%d-%Y'' @ ''.csv'')
               \<mapsto>
               as_read
                ([[''DocType'', doc_type],
                  [''JobID'', job_id],
                  [''Project'', project_name],
                  [''Client'', client_name],
                  [''Address'', project_address],
                  [''Date'', strftime D doc_date ''%m-%d-%Y''],
                  [''ReceiptsTotal'',
                     num_str T (case totals ''receipts_total'' of
                                  None \<Rightarrow> float_zero A | Some v \<Rightarrow> v)],
                  [],
                  [''Section'', ''Description'', ''FullDescription'', ''WorkerType'',
                   ''Hours/Qty'', ''Rate/UnitPrice'', ''LineTotal'']]
                 @ map (\<lambda>l. [line_section l, description l, detail l, worker_type l,
                               num_str T (hours l), num_str T (rate l),
                               num_str T (py_mul A (hours l) (rate l))]) lines
                 @ [[],
                    [''Subtotal'', '''', '''', '''', '''', '''', num_str T subtotal],
                    [''GrandTotal'', '''', '''', '''', '''', '''', num_str T grand_total]]
                 @ (if allowances = [] then []
                    else [[],
                          [''Owner Allowances (client purchases directly)''],
                          [''Description'', ''Quantity'', ''EstUnitCost'', ''EstTotal'']]
                         @ map (\<lambda>a. [a_description a, num_str T (quantity a),
                                       num_str T (unit_cost a),
                                       num_str T (py_mul A (quantity a) (unit_cost a))])
                             allowances
                         @ [[''OwnerAllowancesTotal'', '''', '''', '''',
                             num_str T (foldl (py_add A) (float_zero A)
                               (map (\<lambda>a. py_mul A (quantity a) (unit_cost a)) allowances))]]))),
            Inr (path_join job_dir
                   (job_id @ ''_'' @ doc_type @ ''_'' @ strftime D doc_date ''%m-%d-%Y''
                      @ ''.csv'')))"
proof -
  have lr: "line_row A T = (\<lambda>l. [line_section l, description l, detail l, worker_type l,
              num_str T (hours l), num_str T (rate l), num_str T (py_mul A (hours l) (rate l))])"
    by (rule ext) (simp add: line_row_def total_def)
  have ar: "allowance_row A T = (\<lambda>a. [a_description a, num_str T (quantity a),
              num_str T (unit_cost a), num_str T (py_mul A (quantity a) (unit_cost a))])"
    by (rule ext) (simp add: allowance_row_def a_total_def)
  have at: "a_total A = (\<lambda>a. py_mul A (quantity a) (unit_cost a))"
    by (rule ext) (simp add: a_total_def)
  show ?thesis
    unfolding save_document_csv_def written_rows_complete [OF assms]
    by (simp add: Let_def format_date_def DATE_FORMAT_def header_rows_def allowance_rows_def
          lr ar at)
qed

text \<open>The file of the example document, written on the 15th of March 2024.\<close>

lemma save_document_csv_rows_example:
  "save_document_csv whole_arith whole_text ymd_dates Map.empty ''jobs/J0001'' ''J0001''
     ''quote'' ''Kitchen remodel'' ''12 Elm St'' ''Ann Lee'' example_lines
     [''subtotal'' \<mapsto> 620, ''receipts_total'' \<mapsto> 0, ''grand_total'' \<mapsto> 620]
     example_allowances example_date
   = ([''jobs/J0001/J0001_quote_03-15-2024.csv'' \<mapsto>
        Rows
         [[''DocType'', ''quote''],
          [''JobID'', ''J0001''],
          [''Project'', ''Kitchen remodel''],
          [''Client'', ''Ann Lee''],
          [''Address'', ''12 Elm St''],
          [''Date'', ''03-15-2024''],
          [''ReceiptsTotal'', ''0.0''],
          [],
          [''Section'', ''Description'', ''FullDescription'', ''WorkerType'', ''Hours/Qty'',
           ''Rate/UnitPrice'', ''LineTotal''],
          [''Kitchen'', ''Demo'', '''', ''Labor'', ''1.0'', ''500.0'', ''500.0''],
          [''Kitchen'', ''Tile'', ''Floor tile'', ''Material'', ''10.0'', ''12.0'', ''120.0''],
          [],
          [''Subtotal'', '''', '''', '''', '''', '''', ''620.0''],
          [''GrandTotal'', '''', '''', '''', '''', '''', ''620.0''],
          [],
          [''Owner Allowances (client purchases directly)''],
          [''Description'', ''Quantity'', ''EstUnitCost'', ''EstTotal''],
          [''Range'', ''1.0'', ''900.0'', ''900.0''],
          [''OwnerAllowancesTotal'', '''', '''', '''', ''900.0'']]],
      Inr ''jobs/J0001/J0001_quote_03-15-2024.csv'')"
  using save_document_csv_rows [of "[''subtotal'' \<mapsto> 620, ''receipts_total'' \<mapsto> 0,
          ''grand_total'' \<mapsto> 620]" 620 620 whole_arith whole_text ymd_dates Map.empty
          "''jobs/J0001''" "''J0001''" "''quote''" "''Kitchen remodel''" "''12 Elm St''"
          "''Ann Lee''" example_lines example_allowances example_date]
  by (simp add: example_lines_def example_allowances_def example_date_def whole_arith_def
        whole_text_def ymd_dates_def whole_str_def digits.simps two_digits_def
        path_join_def as_read_def field_limit_def)

text \<open>
  C8 holds for every row but the \<^verbatim>\<open>Date\<close> row, which is not always in the form
  \<^verbatim>\<open>MM-DD-YYYY\<close> that the claim and the docstring of \<^verbatim>\<open>format_date\<close> state. The
  operator can give a document the date \<^verbatim>\<open>01-01-0999\<close>, which \<^verbatim>\<open>parse_mmddyyyy\<close>
  accepts. For the example document with that date, \<^verbatim>\<open>save_document_csv\<close> writes the
  rows of the layout with the \<^verbatim>\<open>Date\<close> row \<^verbatim>\<open>01-01-999\<close>, a year of three digits, and
  \<^verbatim>\<open>parse_mmddyyyy\<close> raises \<^verbatim>\<open>ValueError\<close> on that text.
\<close>

theorem save_document_csv_year_999:
  "parse_mmddyyyy ymd_dates ''01-01-0999'' = Some \<lparr>d_year = 999, d_month = 1, d_day = 1\<rparr> \<and>
   save_document_csv whole_arith whole_text ymd_dates Map.empty ''jobs/J0001'' ''J0001''
     ''quote'' ''Kitchen remodel'' ''12 Elm St'' ''Ann Lee'' example_lines
     [''subtotal'' \<mapsto> 620, ''receipts_total'' \<mapsto> 0, ''grand_total'' \<mapsto> 620]
     example_allowances \<lparr>d_year = 999, d_month = 1, d_day = 1\<rparr>
   = ([''jobs/J0001/J0001_quote_01-01-999.csv'' \<mapsto>
        Rows
         [[''DocType'', ''quote''],
          [''JobID'', ''J0001''],
          [''Project'', ''Kitchen remodel''],
          [''Client'', ''Ann Lee''],
          [''Address'', ''12 Elm St''],
          [''Date'', ''01-01-999''],
          [''ReceiptsTotal'', ''0.0''],
          [],
          [''Section'', ''Description'', ''FullDescription'', ''WorkerType'', ''Hours/Qty'',
           ''Rate/UnitPrice'', ''LineTotal''],
          [''Kitchen'', ''Demo'', '''', ''Labor'', ''1.0'', ''500.0'', ''500.0''],
          [''Kitchen'', ''Tile'', ''Floor tile'', ''Material'', ''10.0'', ''12.0'', ''120.0''],
          [],
          [''Subtotal'', '''', '''', '''', '''', '''', ''620.0''],
          [''GrandTotal'', '''', '''', '''', '''', '''', ''620.0''],
          [],
          [''Owner Allowances (client purchases directly)''],
          [''Description'', ''Quantity'', ''EstUnitCost'', ''EstTotal''],
          [''Range'', ''1.0'', ''900.0'', ''900.0''],
          [''OwnerAllowancesTotal'', '''', '''', '''', ''900.0'']]],
      Inr ''jobs/J0001/J0001_quote_01-01-999.csv'') \<and>
   parse_mmddyyyy ymd_dates ''01-01-999'' = None"
proof (intro conjI)
  show "parse_mmddyyyy ymd_dates ''01-01-0999'' = Some \<lparr>d_year = 999, d_month = 1, d_day = 1\<rparr>"
    by (simp add: parse_mmddyyyy_def ymd_dates_def ymd_eval)
  show "parse_mmddyyyy ymd_dates ''01-01-999'' = None"
    by (simp add: parse_mmddyyyy_def ymd_dates_def ymd_eval)
  show "save_document_csv whole_arith whole_text ymd_dates Map.empty ''jobs/J0001'' ''J0001''
     ''quote'' ''Kitchen remodel'' ''12 Elm St'' ''Ann Lee'' example_lines
     [''subtotal'' \<mapsto> 620, ''receipts_total'' \<mapsto> 0, ''grand_total'' \<mapsto> 620]
     example_allowances \<lparr>d_year = 999, d_month = 1, d_day = 1\<rparr>
   = ([''jobs/J0001/J0001_quote_01-01-999.csv'' \<mapsto>
        Rows
         [[''DocType'', ''quote''],
          [''JobID'', ''J0001''],
          [''Project'', ''Kitchen remodel''],
          [''Client'', ''Ann Lee''],
          [''Address'', ''12 Elm St''],
          [''Date'', ''01-01-999''],
          [''ReceiptsTotal'', ''0.0''],
          [],
          [''Section'', ''Description'', ''FullDescription'', ''WorkerType'', ''Hours/Qty'',
           ''Rate/UnitPrice'', ''LineTotal''],
          [''Kitchen'', ''Demo'', '''', ''Labor'', ''1.0'', ''500.0'', ''500.0''],
          [''Kitchen'', ''Tile'', ''Floor tile'', ''Material'', ''10.0'', ''12.0'', ''120.0''],
          [],
          [''Subtotal'', '''', '''', '''', '''', '''', ''620.0''],
          [''GrandTotal'', '''', '''', '''', '''', '''', ''620.0''],
          [],
          [''Owner Allowances (client purchases directly)''],
          [''Description'', ''Quantity'', ''EstUnitCost'', ''EstTotal''],
          [''Range'', ''1.0'', ''900.0'', ''900.0''],
          [''OwnerAllowancesTotal'', '''', '''', '''', ''900.0'']]],
      Inr ''jobs/J0001/J0001_quote_01-01-999.csv'')"
    using save_document_csv_rows [of "[''subtotal'' \<mapsto> 620, ''receipts_total'' \<mapsto> 0,
            ''grand_total'' \<mapsto> 620]" 620 620 whole_arith whole_text ymd_dates Map.empty
            "''jobs/J0001''" "''J0001''" "''quote''" "''Kitchen remodel''" "''12 Elm St''"
            "''Ann Lee''" example_lines example_allowances
            "\<lparr>d_year = 999, d_month = 1, d_day = 1\<rparr>"]
    by (simp add: example_lines_def example_allowances_def whole_arith_def
          whole_text_def ymd_dates_def whole_str_def digits.simps two_digits_def
          path_join_def as_read_def field_limit_def)
qed

text \<open>
  The rows of the file that \<^verbatim>\<open>create_quote_or_invoice\<close> has written under standard
  pricing: \<^verbatim>\<open>totals = compute_totals(lines, receipts_total=receipts_total)\<close>, then
  \<^verbatim>\<open>save_document_csv(..., lines=lines, totals=totals, allowances=allowances, ...)\<close>.
\<close>

definition standard_file :: "'n py_arith \<Rightarrow> 'n py_text \<Rightarrow> string \<Rightarrow> string \<Rightarrow> string \<Rightarrow> string \<Rightarrow>
    string \<Rightarrow> 'n EstimateLine list \<Rightarrow> 'n \<Rightarrow> 'n OwnerAllowance list \<Rightarrow> string \<Rightarrow> csv_row list" where
  "standard_file A T job_id doc_type project_name project_address client_name lines
      receipts_total allowances date_str =
     fst (written_rows A T job_id doc_type project_name project_address client_name lines
            (compute_totals A lines receipts_total) allowances date_str)"

lemma standard_file_rows:
  "standard_file A T job_id doc_type project_name project_address client_name lines
      receipts_total allowances date_str
   = header_rows A T job_id doc_type project_name project_address client_name
       (compute_totals A lines receipts_total) date_str
     @ map (line_row A T) lines
     @ [[], [''Subtotal'', '''', '''', '''', '''', '''',
             num_str T (py_sum A (map (total A) lines))],
            [''GrandTotal'', '''', '''', '''', '''', '''',
             num_str T (py_add A (py_sum A (map (total A) lines)) receipts_total)]]
     @ allowance_rows A T allowances"
proof -
  have keys: "compute_totals A lines receipts_total ''subtotal''
                = Some (py_sum A (map (total A) lines))"
    "compute_totals A lines receipts_total ''grand_total''
                = Some (py_add A (py_sum A (map (total A) lines)) receipts_total)"
    by (simp_all add: compute_totals_def Let_def)
  show ?thesis
    by (simp add: standard_file_def written_rows_complete [OF keys])
qed

text \<open>
  C4. Allowances never enter the subtotal or the grand total. The totals are computed
  from the line items and the receipts total alone, and in the file written for them the
  rows through \<^verbatim>\<open>GrandTotal\<close> are the same whatever the allowances are: the file with
  allowances is the file without them followed by the allowance block, whose last row,
  \<^verbatim>\<open>OwnerAllowancesTotal\<close>, is the only one to carry the sum of the allowance totals.
\<close>

theorem allowances_outside_totals:
  "standard_file A T job_id doc_type project_name project_address client_name lines
      receipts_total as1 date_str
     = standard_file A T job_id doc_type project_name project_address client_name lines
         receipts_total [] date_str @ allowance_rows A T as1 \<and>
   take (12 + length lines)
     (standard_file A T job_id doc_type project_name project_address client_name lines
        receipts_total as1 date_str)
     = take (12 + length lines)
         (standard_file A T job_id doc_type project_name project_address client_name lines
            receipts_total as2 date_str) \<and>
   standard_file A T job_id doc_type project_name project_address client_name lines
      receipts_total as1 date_str ! (10 + length lines)
     = [''Subtotal'', '''', '''', '''', '''', '''', num_str T (py_sum A (map (total A) lines))] \<and>
   standard_file A T job_id doc_type project_name project_address client_name lines
      receipts_total as1 date_str ! (11 + length lines)
     = [''GrandTotal'', '''', '''', '''', '''', '''',
        num_str T (py_add A (py_sum A (map (total A) lines)) receipts_total)] \<and>
   allowance_rows A T [] = [] \<and>
   last (allowance_rows A T (a # as1))
     = [''OwnerAllowancesTotal'', '''', '''', '''',
        num_str T (foldl (py_add A) (float_zero A) (map (a_total A) (a # as1)))]"
proof (intro conjI)
  show e: "allowance_rows A T [] = []" by (simp add: allowance_rows_def)
  show "standard_file A T job_id doc_type project_name project_address client_name lines
          receipts_total as1 date_str
        = standard_file A T job_id doc_type project_name project_address client_name lines
            receipts_total [] date_str @ allowance_rows A T as1"
    by (simp add: standard_file_rows e)
  show "take (12 + length lines)
          (standard_file A T job_id doc_type project_name project_address client_name lines
             receipts_total as1 date_str)
        = take (12 + length lines)
            (standard_file A T job_id doc_type project_name project_address client_name lines
               receipts_total as2 date_str)"
    by (simp add: standard_file_rows)
  show "standard_file A T job_id doc_type project_name project_address client_name lines
          receipts_total as1 date_str ! (10 + length lines)
        = [''Subtotal'', '''', '''', '''', '''', '''', num_str T (py_sum A (map (total A) lines))]"
    by (simp add: standard_file_rows nth_append)
  show "standard_file A T job_id doc_type project_name project_address client_name lines
          receipts_total as1 date_str ! (11 + length lines)
        = [''GrandTotal'', '''', '''', '''', '''', '''',
           num_str T (py_add A (py_sum A (map (total A) lines)) receipts_total)]"
    by (simp add: standard_file_rows nth_append)
  show "last (allowance_rows A T (a # as1))
          = [''OwnerAllowancesTotal'', '''', '''', '''',
             num_str T (foldl (py_add A) (float_zero A) (map (a_total A) (a # as1)))]"
    by (simp add: allowance_rows_def)
qed

subsection \<open>Export, then import\<close>

text \<open>A text that \<^verbatim>\<open>strip\<close> leaves as it is.\<close>

definition stripped :: "string \<Rightarrow> bool" where
  "stripped s \<longleftrightarrow> strip s = s"

text \<open>A number whose printed form is not blank and is read back by \<^verbatim>\<open>float\<close> as the
  same number.\<close>

definition reads_back :: "'n py_text \<Rightarrow> 'n \<Rightarrow> bool" where
  "reads_back T x \<longleftrightarrow> strip (num_str T x) \<noteq> [] \<and> to_float T (num_str T x) = Some x"

definition line_ok :: "'n py_text \<Rightarrow> 'n EstimateLine \<Rightarrow> bool" where
  "line_ok T l \<longleftrightarrow>
     stripped (line_section l) \<and> stripped (description l) \<and> stripped (detail l) \<and>
     stripped (worker_type l) \<and> line_section l \<notin> set table_end \<and>
     reads_back T (hours l) \<and> reads_back T (rate l)"

definition allowance_ok :: "'n py_text \<Rightarrow> 'n OwnerAllowance \<Rightarrow> bool" where
  "allowance_ok T a \<longleftrightarrow>
     stripped (a_description a) \<and> a_description a \<noteq> ''OwnerAllowancesTotal'' \<and>
     reads_back T (quantity a) \<and> reads_back T (unit_cost a)"

lemma float_or_zero_reads_back: "reads_back T x \<Longrightarrow> float_or_zero A T (num_str T x) = x"
  by (simp add: reads_back_def float_or_zero_def)

lemma line_row_ok:
  assumes "line_ok T l"
  shows "table_row (line_row A T l)" and "\<not> all_blank (line_row A T l)"
    and "row_line A T (line_row A T l) = l"
  using assms
  by (simp_all add: line_ok_def table_row_def all_blank_def line_row_def row_line_def
        cell_text_def cell_number_def stripped_def reads_back_def float_or_zero_def)

lemma allowance_row_ok:
  assumes "allowance_ok T a"
  shows "allowance_body_row (allowance_row A T a)" and "allowance_row A T a \<noteq> []"
    and "row_allowance A T (allowance_row A T a) = a"
  using assms
  by (simp_all add: allowance_ok_def allowance_body_row_def allowance_row_def
        row_allowance_def cell_text_def cell_number_def stripped_def reads_back_def
        float_or_zero_def)

lemma lines_rows_ok:
  assumes "list_all (line_ok T) lines"
  shows "list_all table_row (map (line_row A T) lines)"
    and "map (row_line A T) (filter (\<lambda>r. \<not> all_blank r) (map (line_row A T) lines)) = lines"
  using assms by (induction lines) (simp_all add: line_row_ok)

lemma allowances_rows_ok:
  assumes "list_all (allowance_ok T) allowances"
  shows "list_all allowance_body_row (map (allowance_row A T) allowances)"
    and "map (row_allowance A T) (filter (\<lambda>r. r \<noteq> []) (map (allowance_row A T) allowances))
           = allowances"
  using assms by (induction allowances) (simp_all add: allowance_row_ok)

text \<open>
  A cell that is read as it was written: it has no carriage return and is not longer
  than the limit of a field.
\<close>

definition kept :: "string \<Rightarrow> bool" where
  "kept s \<longleftrightarrow> CHR 0x0D \<notin> set s \<and> length s \<le> field_limit"

lemma text_mode_kept: "CHR 0x0D \<notin> set s \<Longrightarrow> text_mode s = s"
  by (induction s rule: text_mode.induct) auto

lemma as_read_kept:
  assumes "list_all (list_all kept) rows"
  shows "as_read rows = Rows rows"
proof -
  have "map (map text_mode) rows = rows"
    using assms by (auto simp: list_all_iff kept_def text_mode_kept intro!: map_idI)
  with assms show ?thesis
    by (auto simp: as_read_def Let_def list_all_iff kept_def)
qed

text \<open>
  C1, as the code has it. Take a document whose texts (job id, document type, project,
  client, address, and the section, description, detail and worker type of each line, and
  the description of each allowance) have no white space at either end, none of whose
  line sections is \<^verbatim>\<open>Subtotal\<close>, \<^verbatim>\<open>GrandTotal\<close> or the allowances marker, none of
  whose allowances is described as \<^verbatim>\<open>OwnerAllowancesTotal\<close>, whose totals carry a
  subtotal and a grand total, whose numbers are printed as non-blank texts that
  \<^verbatim>\<open>float\<close> reads back, whose date is read back by \<^verbatim>\<open>strptime\<close> from the text
  \<^verbatim>\<open>strftime\<close> gives it for \<^verbatim>\<open>%m-%d-%Y\<close>, and for which no cell written has a
  carriage return or more than 131072 characters. For such a document,
  \<^verbatim>\<open>save_document_csv\<close> returns a path, and \<^verbatim>\<open>load_quote_from_csv\<close> on that path
  returns without a message the metadata, the line items, the three totals (the receipts
  total read with its default \<^verbatim>\<open>0.0\<close>) and the allowances of the document.
\<close>

theorem export_then_import:
  fixes A :: "'n py_arith" and T :: "'n py_text" and D :: "'d py_dates"
  assumes texts: "stripped job_id" "stripped doc_type" "stripped project_name"
      "stripped project_address" "stripped client_name"
    and lines: "list_all (line_ok T) lines"
    and allowances: "list_all (allowance_ok T) allowances"
    and totals: "totals ''subtotal'' = Some subtotal" "totals ''grand_total'' = Some grand_total"
    and receipts:
      "receipts = (case totals ''receipts_total'' of None \<Rightarrow> float_zero A | Some v \<Rightarrow> v)"
    and numbers: "reads_back T subtotal" "reads_back T grand_total" "reads_back T receipts"
    and date: "parse_mmddyyyy D (strip (format_date D doc_date)) = Some doc_date"
    and cells: "list_all (list_all kept)
                  (fst (written_rows A T job_id doc_type project_name project_address
                          client_name lines totals allowances (format_date D doc_date)))"
  shows "\<exists>fs' path.
           save_document_csv A T D fs job_dir job_id doc_type project_name project_address
             client_name lines totals allowances doc_date = (fs', Inr path) \<and>
           load_quote_from_csv A T D fs' path
             = Some ([], \<lparr>ld_meta = [''doc_type'' \<mapsto> Text doc_type, ''job_id'' \<mapsto> Text job_id,
                                      ''project_name'' \<mapsto> Text project_name,
                                      ''client_name'' \<mapsto> Text client_name,
                                      ''project_address'' \<mapsto> Text project_address,
                                      ''doc_date'' \<mapsto> Date doc_date],
                           ld_lines = lines,
                           ld_totals = [''subtotal'' \<mapsto> subtotal,
                                        ''receipts_total'' \<mapsto> receipts,
                                        ''grand_total'' \<mapsto> grand_total],
                           ld_allowances = allowances\<rparr>)"
proof -
  define rows where
    "rows = fst (written_rows A T job_id doc_type project_name project_address client_name
                   lines totals allowances (format_date D doc_date))"
  define path where
    "path = path_join job_dir (job_id @ ''_'' @ doc_type @ ''_'' @ format_date D doc_date @ ''.csv'')"
  have "as_read rows = Rows rows"
    unfolding rows_def by (rule as_read_kept [OF cells])
  then have save:
    "save_document_csv A T D fs job_dir job_id doc_type project_name project_address
       client_name lines totals allowances doc_date = (fs(path \<mapsto> Rows rows), Inr path)"
    by (simp add: save_document_csv_def written_rows_complete [OF totals] rows_def path_def
          Let_def)
  have scan: "scan_rows A T D rows 0 (initial A D)
                = Some \<lparr>ld_meta = [''doc_type'' \<mapsto> Text doc_type, ''job_id'' \<mapsto> Text job_id,
                                   ''project_name'' \<mapsto> Text project_name,
                                   ''client_name'' \<mapsto> Text client_name,
                                   ''project_address'' \<mapsto> Text project_address,
                                   ''doc_date'' \<mapsto> Date doc_date],
                        ld_lines = lines,
                        ld_totals = [''subtotal'' \<mapsto> subtotal,
                                     ''receipts_total'' \<mapsto> receipts,
                                     ''grand_total'' \<mapsto> grand_total],
                        ld_allowances = allowances\<rparr>"
  proof (cases "allowances = []")
    case True
    then have "rows = header_rows A T job_id doc_type project_name project_address client_name
                        totals (format_date D doc_date)
                      @ map (line_row A T) lines
                      @ [[], [''Subtotal'', '''', '''', '''', '''', '''', num_str T subtotal],
                             [''GrandTotal'', '''', '''', '''', '''', '''', num_str T grand_total]]"
      by (simp add: rows_def written_rows_complete [OF totals] allowance_rows_def)
    then show ?thesis
      using scan_file_plain [OF lines_rows_ok(1) [OF lines], of A T D]
        texts numbers date True
      by (simp add: head_state_def lines_rows_ok(2) [OF lines] float_or_zero_reads_back
            stripped_def receipts [symmetric])
  next
    case False
    define tot :: csv_row where
      "tot = [''OwnerAllowancesTotal'', '''', '''', '''',
              num_str T (foldl (py_add A) (float_zero A) (map (a_total A) allowances))]"
    have tot: "tot \<noteq> []" "strip (hd tot) = ''OwnerAllowancesTotal''"
      by (simp_all add: tot_def strip_keys)
    from False
    have "rows = header_rows A T job_id doc_type project_name project_address client_name
                   totals (format_date D doc_date)
                 @ map (line_row A T) lines
                 @ [[], [''Subtotal'', '''', '''', '''', '''', '''', num_str T subtotal],
                        [''GrandTotal'', '''', '''', '''', '''', '''', num_str T grand_total]]
                 @ [[], [''Owner Allowances (client purchases directly)''],
                    [''Description'', ''Quantity'', ''EstUnitCost'', ''EstTotal'']]
                 @ map (allowance_row A T) allowances @ [tot]"
      by (simp add: rows_def written_rows_complete [OF totals] allowance_rows_def tot_def)
    then show ?thesis
      using scan_file_allowances [OF lines_rows_ok(1) [OF lines]
          allowances_rows_ok(1) [OF allowances] tot, of A T D]
        texts numbers date
      by (simp add: head_state_def lines_rows_ok(2) [OF lines]
            allowances_rows_ok(2) [OF allowances] float_or_zero_reads_back
            stripped_def receipts [symmetric])
  qed
  have "load_quote_from_csv A T D (fs(path \<mapsto> Rows rows)) path
          = Some ([], \<lparr>ld_meta = [''doc_type'' \<mapsto> Text doc_type, ''job_id'' \<mapsto> Text job_id,
                                   ''project_name'' \<mapsto> Text project_name,
                                   ''client_name'' \<mapsto> Text client_name,
                                   ''project_address'' \<mapsto> Text project_address,
                                   ''doc_date'' \<mapsto> Date doc_date],
                        ld_lines = lines,
                        ld_totals = [''subtotal'' \<mapsto> subtotal,
                                     ''receipts_total'' \<mapsto> receipts,
                                     ''grand_total'' \<mapsto> grand_total],
                        ld_allowances = allowances\<rparr>)"
    by (simp add: load_quote_from_csv_def scan)
  with save show ?thesis by blast
qed

text \<open>
  The export of the example document is read back as the document.
\<close>

theorem export_then_import_example:
  "\<exists>fs' path.
     save_document_csv whole_arith whole_text ymd_dates Map.empty ''jobs/J0001'' ''J0001''
       ''quote'' ''Kitchen remodel'' ''12 Elm St'' ''Ann Lee'' example_lines
       [''subtotal'' \<mapsto> 620, ''receipts_total'' \<mapsto> 0, ''grand_total'' \<mapsto> 620]
       example_allowances example_date = (fs', Inr path) \<and>
     load_quote_from_csv whole_arith whole_text ymd_dates fs' path
       = Some ([], \<lparr>ld_meta = [''doc_type'' \<mapsto> Text ''quote'', ''job_id'' \<mapsto> Text ''J0001'',
                                ''project_name'' \<mapsto> Text ''Kitchen remodel'',
                                ''client_name'' \<mapsto> Text ''Ann Lee'',
                                ''project_address'' \<mapsto> Text ''12 Elm St'',
                                ''doc_date'' \<mapsto> Date example_date],
                     ld_lines = example_lines,
                     ld_totals = [''subtotal'' \<mapsto> 620, ''receipts_total'' \<mapsto> 0,
                                  ''grand_total'' \<mapsto> 620],
                     ld_allowances = example_allowances\<rparr>)"
proof -
  have texts: "stripped ''J0001''" "stripped ''quote''" "stripped ''Kitchen remodel''"
    "stripped ''12 Elm St''" "stripped ''Ann Lee''"
    by (simp_all add: stripped_def strip_def py_isspace_def)
  have numbers: "reads_back whole_text 620" "reads_back whole_text 0"
    by (simp_all add: reads_back_def whole_text_def whole_str_def whole_float_def digits.simps
          digit_val_def strip_def py_isspace_def Let_def)
  have lines: "list_all (line_ok whole_text) example_lines"
    by (simp add: example_lines_def line_ok_def stripped_def reads_back_def table_end_def
          whole_text_def whole_str_def whole_float_def digits.simps digit_val_def strip_def
          py_isspace_def Let_def)
  have allowances: "list_all (allowance_ok whole_text) example_allowances"
    by (simp add: example_allowances_def allowance_ok_def stripped_def reads_back_def
          whole_text_def whole_str_def whole_float_def digits.simps digit_val_def strip_def
          py_isspace_def Let_def)
  have date: "parse_mmddyyyy ymd_dates (strip (format_date ymd_dates example_date))
                = Some example_date"
    by (simp add: parse_mmddyyyy_def format_date_def ymd_dates_def example_date_def
          ymd_eval strip_def py_isspace_def)
  have cells: "list_all (list_all kept)
     (fst (written_rows whole_arith whole_text ''J0001'' ''quote'' ''Kitchen remodel''
             ''12 Elm St'' ''Ann Lee'' example_lines
             [''subtotal'' \<mapsto> 620, ''receipts_total'' \<mapsto> 0, ''grand_total'' \<mapsto> 620]
             example_allowances (format_date ymd_dates example_date)))"
    by (simp add: written_rows_def header_rows_def line_row_def allowance_rows_def
          allowance_row_def total_def a_total_def Let_def kept_def field_limit_def
          example_lines_def example_allowances_def example_date_def whole_arith_def
          whole_text_def whole_str_def digits.simps format_date_def DATE_FORMAT_def
          ymd_dates_def two_digits_def)
  show ?thesis
    using export_then_import [OF texts lines allowances _ _ _ numbers(1) numbers(1) _ date
        cells, where receipts = 0 and fs = Map.empty and job_dir = "''jobs/J0001''"]
      numbers(2)
    by simp
qed

text \<open>
  C1 fails as it is stated. A quote with one line item in a section that the operator
  named \<^verbatim>\<open>Subtotal\<close> is exported, and the import of the written file returns no line
  item: the table ends at the row of that line.
\<close>

theorem export_then_import_loses_line:
  "(case save_document_csv whole_arith whole_text ymd_dates Map.empty ''jobs/J0001'' ''J0001''
           ''quote'' ''Kitchen remodel'' ''12 Elm St'' ''Ann Lee''
           [\<lparr>line_section = ''Subtotal'', description = ''Demo'', worker_type = ''Labor'',
             hours = 1, rate = 500, detail = []\<rparr>]
           [''subtotal'' \<mapsto> 500, ''receipts_total'' \<mapsto> 0, ''grand_total'' \<mapsto> 500]
           [] example_date of
      (fs', res) \<Rightarrow>
        (res, map_option (\<lambda>(msgs, st). ld_lines st)
                (load_quote_from_csv whole_arith whole_text ymd_dates fs'
                   ''jobs/J0001/J0001_quote_03-15-2024.csv'')))
   = (Inr ''jobs/J0001/J0001_quote_03-15-2024.csv'', Some [])"
  by (simp add: save_document_csv_def written_rows_def header_rows_def line_row_def
        allowance_rows_def total_def format_date_def path_join_def Let_def
        whole_arith_def whole_text_def ymd_dates_def example_date_def whole_str_def
        as_read_def field_limit_def
        load_quote_from_csv_def scan_rows.simps row_step_def table_loop.simps item_def
        item_last_def strip_def py_isspace_def table_end_def initial_def set_meta_def
        set_total_def float_or_zero_def whole_float_def parse_mmddyyyy_def ymd_eval)

subsection \<open>What a pass of the outer loop keeps\<close>

lemma scan_rows_invariant:
  assumes "scan_rows A T D rows i st = Some st'" and "P st"
    and step: "\<And>i st j st1. i < length rows \<Longrightarrow> P st \<Longrightarrow>
                 row_step A T D rows i st = Some (j, st1) \<Longrightarrow> P st1"
  shows "P st'"
  using assms(1,2)
proof (induction "length rows - i" arbitrary: i st rule: less_induct)
  case less
  show ?case
  proof (cases "i < length rows")
    case False
    with less.prems show ?thesis by (simp add: scan_rows_end)
  next
    case True
    then obtain j st1 where s: "row_step A T D rows i st = Some (j, st1)"
      using row_step_total by blast
    then have "i < j" by (rule row_step_index)
    with True have m: "length rows - j < length rows - i" by simp
    from less.prems(1) have "scan_rows A T D rows j st1 = Some st'"
      by (simp add: scan_rows_step [OF True s])
    from less.hyps [OF m this step [OF True less.prems(2) s]] show ?thesis .
  qed
qed

text \<open>A pass changes the metadata and the totals only through \<open>key_value\<close>.\<close>

lemma row_step_cases:
  assumes "i < length rows" and "row_step A T D rows i st = Some (j, st1)"
  shows "st1 = st \<or> st1 = key_value A T D (rows ! i) st \<and> rows ! i \<noteq> []
         \<or> (\<exists>ls. st1 = st\<lparr>ld_lines := ls\<rparr>) \<or> (\<exists>bs. st1 = st\<lparr>ld_allowances := bs\<rparr>)"
proof (cases "rows ! i = []")
  case True
  with assms show ?thesis by (simp add: row_step_empty)
next
  case False
  show ?thesis
  proof (cases "strip (hd (rows ! i)) = ''Section''")
    case True
    with assms False show ?thesis
      by (auto simp: row_step_section split: bind_splits)
  next
    case no_section: False
    show ?thesis
    proof (cases "strip (hd (rows ! i)) = marker")
      case True
      with assms False show ?thesis
        by (auto simp: row_step_marker split: bind_splits)
    next
      case no_marker: False
      with assms False no_section show ?thesis
        by (simp add: row_step_key_value)
    qed
  qed
qed

text \<open>A row that does not set the date: it is no \<^verbatim>\<open>Date\<close> row with a value cell, or
  \<^verbatim>\<open>parse_mmddyyyy\<close> raises \<^verbatim>\<open>ValueError\<close> on its value.\<close>

definition date_unread :: "'d py_dates \<Rightarrow> csv_row \<Rightarrow> bool" where
  "date_unread D r \<longleftrightarrow>
     (if r \<noteq> [] \<and> strip (hd r) = ''Date'' \<and> 1 < length r
      then parse_mmddyyyy D (strip (r ! 1)) = None else True)"

lemma key_value_doc_date:
  assumes "date_unread D r" and "r \<noteq> []"
  shows "ld_meta (key_value A T D r st) ''doc_date'' = ld_meta st ''doc_date''"
  using assms
  by (auto simp: date_unread_def key_value_def set_meta_def set_total_def Let_def
        split: if_splits)

text \<open>
  C9. For every file in which the value cell of each \<^verbatim>\<open>Date\<close> row is not a date in the
  format \<^verbatim>\<open>%m-%d-%Y\<close> (\<^verbatim>\<open>strptime\<close> raises \<^verbatim>\<open>ValueError\<close> on it), the import ends without
  an exception and the date of the loaded document is the date of today.
\<close>

theorem unreadable_date_is_today:
  fixes A :: "'n py_arith" and D :: "'d py_dates"
  assumes "list_all (date_unread D) rows"
  shows "\<exists>st. load_quote_from_csv A T D (fs(path \<mapsto> Rows rows)) path = Some ([], st) \<and>
              ld_meta st ''doc_date'' = Some (Date (today D))"
proof -
  obtain st where st: "scan_rows A T D rows 0 (initial A D) = Some st"
    using scan_rows_total by blast
  have "ld_meta st ''doc_date'' = Some (Date (today D))"
  proof (rule scan_rows_invariant [OF st])
    show "ld_meta (initial A D) ''doc_date'' = Some (Date (today D))"
      by (simp add: initial_def)
  next
    fix i j and s s1 :: "('n, 'd) loaded"
    assume i: "i < length rows" and s: "ld_meta s ''doc_date'' = Some (Date (today D))"
      and step: "row_step A T D rows i s = Some (j, s1)"
    from assms i have "date_unread D (rows ! i)" by (simp add: list_all_length)
    with row_step_cases [OF i step] s show "ld_meta s1 ''doc_date'' = Some (Date (today D))"
      by (auto simp: key_value_doc_date)
  qed
  with st show ?thesis by (simp add: load_quote_from_csv_def)
qed

theorem unreadable_date_is_today_example:
  "\<exists>st. load_quote_from_csv whole_arith whole_text ymd_dates
          [''J0001_quote_03-15-2024.csv'' \<mapsto>
             Rows [[''DocType'', ''quote''], [''JobID'', ''J0001''], [''Date'', ''15/03/2024''],
                   [''ReceiptsTotal'', ''0.0'']]]
          ''J0001_quote_03-15-2024.csv'' = Some ([], st) \<and>
        ld_meta st ''doc_date'' = Some (Date \<lparr>d_year = 2024, d_month = 3, d_day = 15\<rparr>)"
proof -
  have "list_all (date_unread ymd_dates)
          [[''DocType'', ''quote''], [''JobID'', ''J0001''], [''Date'', ''15/03/2024''],
           [''ReceiptsTotal'', ''0.0'']]"
    by (simp add: date_unread_def parse_mmddyyyy_def ymd_dates_def ymd_eval strip_def
          py_isspace_def)
  from unreadable_date_is_today [OF this, of whole_arith whole_text Map.empty
         "''J0001_quote_03-15-2024.csv''"]
  show ?thesis by (simp add: ymd_dates_def)
qed

subsection \<open>The line-item table\<close>

lemma scan_rows_invariant_from:
  assumes "scan_rows A T D rows i st = Some st'" and "P st" and "i0 \<le> i"
    and step: "\<And>k st j st1. i0 \<le> k \<Longrightarrow> k < length rows \<Longrightarrow> P st \<Longrightarrow>
                 row_step A T D rows k st = Some (j, st1) \<Longrightarrow> P st1"
  shows "P st'"
  using assms(1,2,3)
proof (induction "length rows - i" arbitrary: i st rule: less_induct)
  case less
  show ?case
  proof (cases "i < length rows")
    case False
    with less.prems show ?thesis by (simp add: scan_rows_end)
  next
    case True
    then obtain j st1 where s: "row_step A T D rows i st = Some (j, st1)"
      using row_step_total by blast
    then have ij: "i < j" by (rule row_step_index)
    with True have m: "length rows - j < length rows - i" by simp
    from less.prems(1) have run: "scan_rows A T D rows j st1 = Some st'"
      by (simp add: scan_rows_step [OF True s])
    from ij less.prems(3) have "i0 \<le> j" by simp
    from less.hyps [OF m run step [OF less.prems(3) True less.prems(2) s] this]
    show ?thesis .
  qed
qed

lemma ld_lines_key_value: "ld_lines (key_value A T D r st) = ld_lines st"
  by (simp add: key_value_def set_meta_def set_total_def Let_def split: option.splits)

lemma row_step_keeps_lines:
  assumes "i < length rows" and "row_step A T D rows i st = Some (j, st1)"
    and "rows ! i = [] \<or> strip (hd (rows ! i)) \<noteq> ''Section''"
  shows "ld_lines st1 = ld_lines st"
proof (cases "rows ! i = []")
  case True
  with assms show ?thesis by (simp add: row_step_empty)
next
  case False
  with assms(3) have no_section: "strip (hd (rows ! i)) \<noteq> ''Section''" by simp
  show ?thesis
  proof (cases "strip (hd (rows ! i)) = marker")
    case True
    with assms False show ?thesis
      by (auto simp: row_step_marker split: bind_splits)
  next
    case no_marker: False
    with assms False no_section show ?thesis
      by (auto simp: row_step_key_value ld_lines_key_value)
  qed
qed

lemma ld_lines_plain_steps: "ld_lines (foldl (plain_step A T D) st kv) = ld_lines st"
  by (induction kv arbitrary: st) (simp_all add: plain_step_def ld_lines_key_value)

text \<open>A row that opens no table.\<close>

definition no_section :: "csv_row \<Rightarrow> bool" where
  "no_section r \<longleftrightarrow> r = [] \<or> strip (hd r) \<noteq> ''Section''"

text \<open>
  C7, as the code has it. Let the rows of a file be \<open>pre\<close>, then a row \<open>hdr\<close> whose
  first cell is \<^verbatim>\<open>Section\<close>, then \<open>body\<close>, then \<open>rest\<close>, where no row of \<open>pre\<close> starts with
  \<^verbatim>\<open>Section\<close> or the allowances marker, every row of \<open>body\<close> has a cell and starts with
  none of \<^verbatim>\<open>Subtotal\<close>, \<^verbatim>\<open>GrandTotal\<close> and the marker, \<open>rest\<close> is empty or begins with a
  row that has no cell or starts with one of these three, and no row of \<open>rest\<close> starts
  with \<^verbatim>\<open>Section\<close> (first cells are compared after \<^verbatim>\<open>strip\<close>). Then the line items
  loaded are those of the rows of \<open>body\<close> that have a cell that is not blank, in order:
  a row whose cells are all blank is skipped and the table goes on; a row with no cell
  ends the table, as the three words and the end of the file do; and no row from there on
  adds a line item.
\<close>

theorem line_item_table:
  fixes A :: "'n py_arith" and D :: "'d py_dates"
  assumes pre: "list_all plain_row pre"
    and hdr: "hdr \<noteq> []" "strip (hd hdr) = ''Section''"
    and body: "list_all table_row body"
    and stop: "table_stop rest"
    and rest: "list_all no_section rest"
  shows "\<exists>st. load_quote_from_csv A T D (fs(path \<mapsto> Rows (pre @ hdr # body @ rest))) path
                = Some ([], st) \<and>
              ld_lines st = map (row_line A T) (filter (\<lambda>r. \<not> all_blank r) body)"
proof -
  define rows where "rows = pre @ hdr # body @ rest"
  define st1 :: "('n, 'd) loaded" where "st1 = foldl (plain_step A T D) (initial A D) pre"
  define st2 :: "('n, 'd) loaded" where
    "st2 = st1\<lparr>ld_lines := ld_lines st1 @ map (row_line A T) (filter (\<lambda>r. \<not> all_blank r) body)\<rparr>"
  obtain st where st: "scan_rows A T D rows 0 (initial A D) = Some st"
    using scan_rows_total by blast
  have 1: "scan_rows A T D rows 0 (initial A D) = scan_rows A T D rows (length pre) st1"
    using scan_rows_plain [OF pre, of A T D "[]" "hdr # body @ rest" "initial A D"]
    by (simp add: rows_def st1_def)
  have 2: "scan_rows A T D rows (length pre) st1
             = scan_rows A T D rows (length pre + 1 + length body) st2"
    using scan_rows_section [OF hdr body stop, of A T D pre st1]
    by (simp add: rows_def st2_def)
  have lines2: "ld_lines st2 = map (row_line A T) (filter (\<lambda>r. \<not> all_blank r) body)"
    by (simp add: st2_def st1_def ld_lines_plain_steps initial_def)
  from st 1 2 have run: "scan_rows A T D rows (length pre + 1 + length body) st2 = Some st"
    by simp
  have "ld_lines st = map (row_line A T) (filter (\<lambda>r. \<not> all_blank r) body)"
  proof (rule scan_rows_invariant_from
      [where P = "\<lambda>s. ld_lines s = map (row_line A T) (filter (\<lambda>r. \<not> all_blank r) body)"
         and ?i0.0 = "length pre + 1 + length body", OF run])
    show "ld_lines st2 = map (row_line A T) (filter (\<lambda>r. \<not> all_blank r) body)"
      by (rule lines2)
  next
    show "length pre + 1 + length body \<le> length pre + 1 + length body" by simp
  next
    fix k j and s s1 :: "('n, 'd) loaded"
    assume k: "length pre + 1 + length body \<le> k" "k < length rows"
      and s: "ld_lines s = map (row_line A T) (filter (\<lambda>r. \<not> all_blank r) body)"
      and step: "row_step A T D rows k s = Some (j, s1)"
    from k have "rows ! k = rest ! (k - (length pre + 1 + length body))"
      and "k - (length pre + 1 + length body) < length rest"
      by (auto simp: rows_def nth_append nth_Cons')
    with rest have "no_section (rows ! k)" by (simp add: list_all_length)
    then have "rows ! k = [] \<or> strip (hd (rows ! k)) \<noteq> ''Section''"
      by (simp add: no_section_def)
    from row_step_keeps_lines [OF k(2) step this] s
    show "ld_lines s1 = map (row_line A T) (filter (\<lambda>r. \<not> all_blank r) body)" by simp
  qed
  with st show ?thesis by (simp add: load_quote_from_csv_def rows_def)
qed

theorem line_item_table_example:
  "\<exists>st. load_quote_from_csv whole_arith whole_text ymd_dates
          [''J0001_quote_03-15-2024.csv'' \<mapsto>
             Rows
              [[''JobID'', ''J0001''],
               [],
               [''Section'', ''Description'', ''FullDescription'', ''WorkerType'', ''Hours/Qty'',
                ''Rate/UnitPrice'', ''LineTotal''],
               [''Kitchen'', ''Demo'', '''', ''Labor'', ''1.0'', ''500.0'', ''500.0''],
               ['''', '' '', ''''],
               [''Kitchen'', ''Tile'', ''Floor tile'', ''Material'', ''10.0'', ''12.0'', ''120.0''],
               [],
               [''Bath'', ''Sink'', '''', ''Material'', ''1.0'', ''80.0'', ''80.0''],
               [''Subtotal'', '''', '''', '''', '''', '''', ''620.0'']]]
          ''J0001_quote_03-15-2024.csv'' = Some ([], st) \<and>
        ld_lines st = example_lines"
proof -
  have pre: "list_all plain_row [[''JobID'', ''J0001''], []]"
    by (simp add: plain_row_def marker_def strip_def py_isspace_def)
  have hdr: "[''Section'', ''Description'', ''FullDescription'', ''WorkerType'', ''Hours/Qty'',
              ''Rate/UnitPrice'', ''LineTotal''] \<noteq> []"
    "strip (hd [''Section'', ''Description'', ''FullDescription'', ''WorkerType'', ''Hours/Qty'',
                ''Rate/UnitPrice'', ''LineTotal'']) = ''Section''"
    by (simp_all add: strip_keys)
  have body: "list_all table_row
     [[''Kitchen'', ''Demo'', '''', ''Labor'', ''1.0'', ''500.0'', ''500.0''],
      ['''', '' '', ''''],
      [''Kitchen'', ''Tile'', ''Floor tile'', ''Material'', ''10.0'', ''12.0'', ''120.0'']]"
    by (simp add: table_row_def table_end_def strip_def py_isspace_def)
  have stop: "table_stop [[], [''Bath'', ''Sink'', '''', ''Material'', ''1.0'', ''80.0'', ''80.0''],
                          [''Subtotal'', '''', '''', '''', '''', '''', ''620.0'']]"
    by (simp add: table_stop_def table_row_def)
  have rest: "list_all no_section
     [[], [''Bath'', ''Sink'', '''', ''Material'', ''1.0'', ''80.0'', ''80.0''],
      [''Subtotal'', '''', '''', '''', '''', '''', ''620.0'']]"
    by (simp add: no_section_def strip_def py_isspace_def)
  from line_item_table [OF pre hdr body stop rest, of whole_arith whole_text ymd_dates Map.empty
         "''J0001_quote_03-15-2024.csv''"]
  show ?thesis
    by (simp add: all_blank_def row_line_def cell_text_def cell_number_def float_or_zero_def
          example_lines_def whole_text_def whole_arith_def whole_float_def digit_val_def
          strip_def py_isspace_def Let_def)
qed

text \<open>
  C7 fails as it is stated. In a file whose table holds a line, an empty row (a blank line
  of the file) and a second line, the second line is not loaded: the empty row ends the
  table, although it is none of the three words. With a row of blank cells in its place,
  both lines are loaded.
\<close>

theorem empty_row_ends_table:
  "map_option (\<lambda>(msgs, st). ld_lines st)
     (load_quote_from_csv whole_arith whole_text ymd_dates
        [''J0001_quote_03-15-2024.csv'' \<mapsto>
           Rows
            [[''Section'', ''Description'', ''FullDescription'', ''WorkerType'', ''Hours/Qty'',
              ''Rate/UnitPrice'', ''LineTotal''],
             [''Kitchen'', ''Demo'', '''', ''Labor'', ''1.0'', ''500.0'', ''500.0''],
             [],
             [''Kitchen'', ''Tile'', ''Floor tile'', ''Material'', ''10.0'', ''12.0'', ''120.0''],
             [''Subtotal'', '''', '''', '''', '''', '''', ''620.0'']]]
        ''J0001_quote_03-15-2024.csv'')
     = Some [\<lparr>line_section = ''Kitchen'', description = ''Demo'', worker_type = ''Labor'',
              hours = 1, rate = 500, detail = []\<rparr>] \<and>
   map_option (\<lambda>(msgs, st). ld_lines st)
     (load_quote_from_csv whole_arith whole_text ymd_dates
        [''J0001_quote_03-15-2024.csv'' \<mapsto>
           Rows
            [[''Section'', ''Description'', ''FullDescription'', ''WorkerType'', ''Hours/Qty'',
              ''Rate/UnitPrice'', ''LineTotal''],
             [''Kitchen'', ''Demo'', '''', ''Labor'', ''1.0'', ''500.0'', ''500.0''],
             [''''],
             [''Kitchen'', ''Tile'', ''Floor tile'', ''Material'', ''10.0'', ''12.0'', ''120.0''],
             [''Subtotal'', '''', '''', '''', '''', '''', ''620.0'']]]
        ''J0001_quote_03-15-2024.csv'')
     = Some example_lines"
  by (simp add: load_quote_from_csv_def scan_rows.simps row_step_def table_loop.simps item_def
        item_last_def line_of_row_def text_cell_def number_cell_def strip_def py_isspace_def
        table_end_def initial_def set_meta_def set_total_def float_or_zero_def whole_float_def
        whole_arith_def whole_text_def digit_val_def Let_def example_lines_def)

subsection \<open>A file with one number replaced\<close>

lemma scan_file_written:
  fixes A :: "'n py_arith" and T :: "'n py_text" and D :: "'d py_dates"
  assumes body: "list_all table_row body"
    and allowances: "list_all allowance_body_row (map (allowance_row A T) allowances)"
  shows "scan_rows A T D
           (header_rows A T job_id doc_type project_name project_address client_name totals
              date_str
            @ body @ [[], [''Subtotal'', '''', '''', '''', '''', '''', s],
                       [''GrandTotal'', '''', '''', '''', '''', '''', g]]
            @ allowance_rows A T allowances) 0 (initial A D)
         = Some ((head_state A T D job_id doc_type project_name project_address client_name
                    (num_str T (case totals ''receipts_total'' of
                                  None \<Rightarrow> float_zero A | Some v \<Rightarrow> v))
                    date_str body s g)
                 \<lparr>ld_allowances := map (row_allowance A T) (map (allowance_row A T) allowances)\<rparr>)"
proof (cases "allowances = []")
  case True
  then show ?thesis
    using scan_file_plain [OF body, of A T D job_id doc_type project_name project_address
            client_name totals date_str s g]
    by (simp add: allowance_rows_def head_state_def)
next
  case False
  define tot :: csv_row where
    "tot = [''OwnerAllowancesTotal'', '''', '''', '''',
            num_str T (foldl (py_add A) (float_zero A) (map (a_total A) allowances))]"
  have tot: "tot \<noteq> []" "strip (hd tot) = ''OwnerAllowancesTotal''"
    by (simp_all add: tot_def strip_keys)
  have full: "filter (\<lambda>r. r \<noteq> []) (map (allowance_row A T) allowances)
                = map (allowance_row A T) allowances"
    by (induction allowances) (simp_all add: allowance_row_def)
  from False show ?thesis
    using scan_file_allowances [OF body allowances tot, of A T D job_id doc_type project_name
            project_address client_name totals date_str s g
            "[''Description'', ''Quantity'', ''EstUnitCost'', ''EstTotal'']"]
    by (simp add: allowance_rows_def tot_def full)
qed

text \<open>A line whose row the table loop converts, and an allowance whose row the allowance
  loop converts.\<close>

definition line_readable :: "'n py_text \<Rightarrow> 'n EstimateLine \<Rightarrow> bool" where
  "line_readable T l \<longleftrightarrow>
     strip (line_section l) \<notin> set table_end \<and> strip (num_str T (hours l)) \<noteq> [] \<and>
     strip (num_str T (rate l)) \<noteq> []"

definition allowance_readable :: "'n OwnerAllowance \<Rightarrow> bool" where
  "allowance_readable a \<longleftrightarrow> strip (a_description a) \<noteq> ''OwnerAllowancesTotal''"

lemma list_all_update: "list_all P xs \<Longrightarrow> P x \<Longrightarrow> list_all P (xs[i := x])"
  unfolding list_all_iff using set_update_subset_insert [of xs i x] by auto

lemma filter_all: "list_all P xs \<Longrightarrow> filter P xs = xs"
  by (induction xs) simp_all

lemma readable_rows:
  assumes "list_all (line_readable T) lines"
  shows "list_all table_row (map (line_row A T) lines)"
    and "list_all (\<lambda>r. \<not> all_blank r) (map (line_row A T) lines)"
  using assms
  by (induction lines)
     (simp_all add: line_readable_def table_row_def all_blank_def line_row_def)

lemma readable_allowance_rows:
  assumes "list_all allowance_readable allowances"
  shows "list_all allowance_body_row (map (allowance_row A T) allowances)"
  using assms
  by (induction allowances)
     (simp_all add: allowance_readable_def allowance_body_row_def allowance_row_def)

lemma replaced_cell_row:
  assumes "line_readable T l" and "k = 4 \<or> k = 5 \<or> k = 6"
  shows "table_row ((line_row A T l)[k := s])" and "\<not> all_blank ((line_row A T l)[k := s])"
  using assms
  by (auto simp: line_readable_def table_row_def all_blank_def line_row_def)

lemma replaced_cell_line:
  assumes "to_float T s = None"
  shows "row_line A T ((line_row A T l)[4 := s]) = (row_line A T (line_row A T l))\<lparr>hours := float_zero A\<rparr>"
    and "row_line A T ((line_row A T l)[5 := s]) = (row_line A T (line_row A T l))\<lparr>rate := float_zero A\<rparr>"
    and "row_line A T ((line_row A T l)[6 := s]) = row_line A T (line_row A T l)"
  using assms
  by (simp_all add: row_line_def line_row_def cell_text_def cell_number_def float_or_zero_def)

text \<open>
  C6, as the code has it. Take the file written for a document whose rows the import
  converts (no line section is one of the three closing words, no allowance is described
  as \<^verbatim>\<open>OwnerAllowancesTotal\<close>, the hours and the rate of each line are printed as
  texts that are not blank) and reads as they were written (no cell has a carriage return
  or more than 131072 characters). Replace in the row of one line item the cell
  \<^verbatim>\<open>Hours/Qty\<close>, or the cell \<^verbatim>\<open>Rate/UnitPrice\<close>, by a text with no carriage return
  and at most 131072 characters on which \<^verbatim>\<open>float\<close> raises \<^verbatim>\<open>ValueError\<close>. Then the
  import ends without an exception and returns what it returns for the file as written,
  except that the hours, respectively the rate, of that line item are \<^verbatim>\<open>0.0\<close>: the
  metadata, the totals, the allowances, the other fields of that line and the other lines
  are the same. Replacing the cell \<^verbatim>\<open>LineTotal\<close>, which the import does not read in
  such a file, changes nothing.
\<close>

theorem replaced_number_loads_as_zero:
  fixes A :: "'n py_arith" and T :: "'n py_text" and D :: "'d py_dates"
  assumes lines: "list_all (line_readable T) lines"
    and allowances: "list_all allowance_readable allowances"
    and totals: "totals ''subtotal'' = Some subtotal" "totals ''grand_total'' = Some grand_total"
    and m: "m < length lines"
    and s: "to_float T s = None" "kept s"
    and rows: "rows = fst (written_rows A T job_id doc_type project_name project_address
                 client_name lines totals allowances (format_date D doc_date))"
    and cells: "list_all (list_all kept) rows"
  shows "\<exists>path st.
           save_document_csv A T D fs job_dir job_id doc_type project_name project_address
             client_name lines totals allowances doc_date = (fs(path \<mapsto> Rows rows), Inr path) \<and>
           load_quote_from_csv A T D (fs(path \<mapsto> Rows rows)) path = Some ([], st) \<and>
           length (ld_lines st) = length lines \<and>
           load_quote_from_csv A T D
               (fs(path \<mapsto> as_read (rows[9 + m := (rows ! (9 + m))[4 := s]]))) path
             = Some ([], st\<lparr>ld_lines := (ld_lines st)
                               [m := (ld_lines st ! m)\<lparr>hours := float_zero A\<rparr>]\<rparr>) \<and>
           load_quote_from_csv A T D
               (fs(path \<mapsto> as_read (rows[9 + m := (rows ! (9 + m))[5 := s]]))) path
             = Some ([], st\<lparr>ld_lines := (ld_lines st)
                               [m := (ld_lines st ! m)\<lparr>rate := float_zero A\<rparr>]\<rparr>) \<and>
           load_quote_from_csv A T D
               (fs(path \<mapsto> as_read (rows[9 + m := (rows ! (9 + m))[6 := s]]))) path
             = Some ([], st)"
proof -
  define date_str where "date_str = format_date D doc_date"
  define path where
    "path = path_join job_dir (job_id @ ''_'' @ doc_type @ ''_'' @ date_str @ ''.csv'')"
  define hd_rows where
    "hd_rows = header_rows A T job_id doc_type project_name project_address client_name totals
                 date_str"
  define body where "body = map (line_row A T) lines"
  define tail where
    "tail = [[], [''Subtotal'', '''', '''', '''', '''', '''', num_str T subtotal],
                 [''GrandTotal'', '''', '''', '''', '''', '''', num_str T grand_total]]
            @ allowance_rows A T allowances"
  define base :: "('n, 'd) loaded" where
    "base = (head_state A T D job_id doc_type project_name project_address client_name
               (num_str T (case totals ''receipts_total'' of None \<Rightarrow> float_zero A | Some v \<Rightarrow> v))
               date_str [] (num_str T subtotal) (num_str T grand_total))
            \<lparr>ld_allowances := map (row_allowance A T) (map (allowance_row A T) allowances)\<rparr>"
  have rows': "rows = hd_rows @ body @ tail"
    by (simp add: rows written_rows_complete [OF totals] hd_rows_def body_def tail_def
          date_str_def)
  have len: "length hd_rows = 9" "length body = length lines"
    by (simp_all add: hd_rows_def body_def)
  have "as_read rows = Rows rows" by (rule as_read_kept [OF cells])
  then have save:
    "save_document_csv A T D fs job_dir job_id doc_type project_name project_address
       client_name lines totals allowances doc_date = (fs(path \<mapsto> Rows rows), Inr path)"
    by (simp add: save_document_csv_def written_rows_complete [OF totals] rows path_def
          date_str_def Let_def)
  have i: "9 + m < length rows" using m by (simp add: rows' len)
  from cells i have "list_all kept (rows ! (9 + m))" by (simp add: list_all_length)
  then have "list_all (list_all kept) (rows[9 + m := (rows ! (9 + m))[k := s]])" for k
    using cells s(2) by (simp add: list_all_update)
  then have read: "as_read (rows[9 + m := (rows ! (9 + m))[k := s]])
                     = Rows (rows[9 + m := (rows ! (9 + m))[k := s]])" for k
    by (rule as_read_kept)
  have scan: "scan_rows A T D (hd_rows @ b @ tail) 0 (initial A D)
                = Some (base\<lparr>ld_lines := map (row_line A T) b\<rparr>)"
    if "list_all table_row b" and "list_all (\<lambda>r. \<not> all_blank r) b" for b
    using scan_file_written [OF that(1) readable_allowance_rows [OF allowances],
        of A T D job_id doc_type project_name project_address client_name totals date_str
           "num_str T subtotal" "num_str T grand_total"]
    by (simp add: hd_rows_def tail_def base_def head_state_def filter_all [OF that(2)])
  have upd: "rows[9 + m := (rows ! (9 + m))[k := s]] = hd_rows @ body[m := (body ! m)[k := s]] @ tail"
    for k
    using m by (simp add: rows' len list_update_append nth_append)
  have bm: "body ! m = line_row A T (lines ! m)"
    using m by (simp add: body_def)
  have lm: "line_readable T (lines ! m)"
    using lines m by (simp add: list_all_length)
  have ok: "list_all table_row (body[m := (body ! m)[k := s]])"
      "list_all (\<lambda>r. \<not> all_blank r) (body[m := (body ! m)[k := s]])"
    if "k = 4 \<or> k = 5 \<or> k = 6" for k
    using readable_rows [OF lines, of A] replaced_cell_row [OF lm that, of A s]
    by (simp_all add: body_def [symmetric] bm list_all_update)
  define st where "st = base\<lparr>ld_lines := map (row_line A T) body\<rparr>"
  have 0: "scan_rows A T D rows 0 (initial A D) = Some st"
    using scan [OF readable_rows [OF lines, of A]]
    by (simp add: rows' body_def st_def)
  have st_lines: "ld_lines st = map (row_line A T) body" by (simp add: st_def)
  have 4: "scan_rows A T D (rows[9 + m := (rows ! (9 + m))[4 := s]]) 0 (initial A D)
             = Some (st\<lparr>ld_lines := (ld_lines st)[m := (ld_lines st ! m)\<lparr>hours := float_zero A\<rparr>]\<rparr>)"
    using scan [OF ok [of 4]] m
    by (simp add: upd st_def map_update bm len replaced_cell_line [OF s(1)])
  have 5: "scan_rows A T D (rows[9 + m := (rows ! (9 + m))[5 := s]]) 0 (initial A D)
             = Some (st\<lparr>ld_lines := (ld_lines st)[m := (ld_lines st ! m)\<lparr>rate := float_zero A\<rparr>]\<rparr>)"
    using scan [OF ok [of 5]] m
    by (simp add: upd st_def map_update bm len replaced_cell_line [OF s(1)])
  have "row_line A T ((body ! m)[6 := s]) = row_line A T (body ! m)"
    by (simp add: bm replaced_cell_line [OF s(1)])
  then have "map (row_line A T) (body[m := (body ! m)[6 := s]]) = map (row_line A T) body"
    by (metis list_update_id map_update)
  then have 6: "scan_rows A T D (rows[9 + m := (rows ! (9 + m))[6 := s]]) 0 (initial A D) = Some st"
    using scan [OF ok [of 6]] by (simp add: upd st_def)
  show ?thesis
    using save 0 4 5 6 st_lines
    by (intro exI [of _ path] exI [of _ st]) (simp add: load_quote_from_csv_def len read)
qed

text \<open>The file written for the example document.\<close>

definition example_file :: "csv_row list" where
  "example_file =
     fst (written_rows whole_arith whole_text ''J0001'' ''quote'' ''Kitchen remodel''
            ''12 Elm St'' ''Ann Lee'' example_lines
            [''subtotal'' \<mapsto> 620, ''receipts_total'' \<mapsto> 0, ''grand_total'' \<mapsto> 620]
            example_allowances (format_date ymd_dates example_date))"

theorem replaced_number_loads_as_zero_example:
  "\<exists>path st.
     save_document_csv whole_arith whole_text ymd_dates Map.empty ''jobs/J0001'' ''J0001''
       ''quote'' ''Kitchen remodel'' ''12 Elm St'' ''Ann Lee'' example_lines
       [''subtotal'' \<mapsto> 620, ''receipts_total'' \<mapsto> 0, ''grand_total'' \<mapsto> 620]
       example_allowances example_date = ([path \<mapsto> Rows example_file], Inr path) \<and>
     load_quote_from_csv whole_arith whole_text ymd_dates [path \<mapsto> Rows example_file] path
       = Some ([], st) \<and>
     length (ld_lines st) = length example_lines \<and>
     load_quote_from_csv whole_arith whole_text ymd_dates
         [path \<mapsto> as_read (example_file[9 + 1 := (example_file ! (9 + 1))[4 := ''abc'']])] path
       = Some ([], st\<lparr>ld_lines := (ld_lines st)
                         [1 := (ld_lines st ! 1)\<lparr>hours := float_zero whole_arith\<rparr>]\<rparr>) \<and>
     load_quote_from_csv whole_arith whole_text ymd_dates
         [path \<mapsto> as_read (example_file[9 + 1 := (example_file ! (9 + 1))[5 := ''abc'']])] path
       = Some ([], st\<lparr>ld_lines := (ld_lines st)
                         [1 := (ld_lines st ! 1)\<lparr>rate := float_zero whole_arith\<rparr>]\<rparr>) \<and>
     load_quote_from_csv whole_arith whole_text ymd_dates
         [path \<mapsto> as_read (example_file[9 + 1 := (example_file ! (9 + 1))[6 := ''abc'']])] path
       = Some ([], st)"
proof -
  have lines: "list_all (line_readable whole_text) example_lines"
    by (simp add: example_lines_def line_readable_def table_end_def whole_text_def
          whole_str_def digits.simps strip_def py_isspace_def)
  have allowances: "list_all allowance_readable example_allowances"
    by (simp add: example_allowances_def allowance_readable_def strip_def py_isspace_def)
  have m: "1 < length example_lines" by (simp add: example_lines_def)
  have s: "to_float whole_text ''abc'' = None" "kept ''abc''"
    by (simp_all add: whole_text_def whole_examples kept_def field_limit_def)
  have cells: "list_all (list_all kept) example_file"
    by (simp add: example_file_def written_rows_def header_rows_def line_row_def
          allowance_rows_def allowance_row_def total_def a_total_def Let_def kept_def
          field_limit_def example_lines_def example_allowances_def example_date_def
          whole_arith_def whole_text_def whole_str_def digits.simps format_date_def
          DATE_FORMAT_def ymd_dates_def two_digits_def)
  show ?thesis
    by (rule replaced_number_loads_as_zero
          [OF lines allowances _ _ m s example_file_def cells,
           where fs = Map.empty and job_dir = "''jobs/J0001''" and subtotal = 620
             and grand_total = 620])
       simp_all
qed

text \<open>
  C6 fails as it is stated. A quote has two line items, in sections that the operator
  named \<^verbatim>\<open>GrandTotal\<close> and \<^verbatim>\<open>Owner Allowances (client purchases directly)\<close>. In the
  file written for it the table ends at the row of the first line, whose last cell, the
  line total \<^verbatim>\<open>500.0\<close>, is then read as the grand total, and the rows after the
  second line are read as allowances. With that one cell replaced by \<^verbatim>\<open>abc\<close>, the grand
  total that is loaded is \<^verbatim>\<open>0.0\<close> and no longer \<^verbatim>\<open>500.0\<close>: a value outside the row
  has changed. No line item is loaded from either file.
\<close>

definition closing_lines :: "int EstimateLine list" where
  "closing_lines =
     [\<lparr>line_section = ''GrandTotal'', description = ''Demo'', worker_type = ''Labor'',
       hours = 1, rate = 500, detail = []\<rparr>,
      \<lparr>line_section = ''Owner Allowances (client purchases directly)'', description = ''Range'',
       worker_type = ''Material'', hours = 1, rate = 900, detail = []\<rparr>]"

definition closing_file :: "csv_row list" where
  "closing_file =
     [[''DocType'', ''quote''],
      [''JobID'', ''J0001''],
      [''Project'', ''Kitchen remodel''],
      [''Client'', ''Ann Lee''],
      [''Address'', ''12 Elm St''],
      [''Date'', ''03-15-2024''],
      [''ReceiptsTotal'', ''0.0''],
      [],
      [''Section'', ''Description'', ''FullDescription'', ''WorkerType'', ''Hours/Qty'',
       ''Rate/UnitPrice'', ''LineTotal''],
      [''GrandTotal'', ''Demo'', '''', ''Labor'', ''1.0'', ''500.0'', ''500.0''],
      [''Owner Allowances (client purchases directly)'', ''Range'', '''', ''Material'', ''1.0'',
       ''900.0'', ''900.0''],
      [],
      [''Subtotal'', '''', '''', '''', '''', '''', ''1400.0''],
      [''GrandTotal'', '''', '''', '''', '''', '''', ''1400.0'']]"

theorem replaced_line_total_changes_grand_total:
  "save_document_csv whole_arith whole_text ymd_dates Map.empty ''jobs/J0001'' ''J0001''
     ''quote'' ''Kitchen remodel'' ''12 Elm St'' ''Ann Lee'' closing_lines
     (compute_totals whole_arith closing_lines 0) [] example_date
     = ([''jobs/J0001/J0001_quote_03-15-2024.csv'' \<mapsto> Rows closing_file],
        Inr ''jobs/J0001/J0001_quote_03-15-2024.csv'') \<and>
   map_option (\<lambda>(msgs, st). (ld_lines st, ld_totals st ''grand_total''))
     (load_quote_from_csv whole_arith whole_text ymd_dates
        [''jobs/J0001/J0001_quote_03-15-2024.csv'' \<mapsto> Rows closing_file]
        ''jobs/J0001/J0001_quote_03-15-2024.csv'')
     = Some ([], Some 500) \<and>
   to_float whole_text ''abc'' = None \<and>
   map_option (\<lambda>(msgs, st). (ld_lines st, ld_totals st ''grand_total''))
     (load_quote_from_csv whole_arith whole_text ymd_dates
        [''jobs/J0001/J0001_quote_03-15-2024.csv'' \<mapsto>
           as_read (closing_file[9 := (closing_file ! 9)[6 := ''abc'']])]
        ''jobs/J0001/J0001_quote_03-15-2024.csv'')
     = Some ([], Some 0)"
proof (intro conjI)
  show "save_document_csv whole_arith whole_text ymd_dates Map.empty ''jobs/J0001'' ''J0001''
     ''quote'' ''Kitchen remodel'' ''12 Elm St'' ''Ann Lee'' closing_lines
     (compute_totals whole_arith closing_lines 0) [] example_date
     = ([''jobs/J0001/J0001_quote_03-15-2024.csv'' \<mapsto> Rows closing_file],
        Inr ''jobs/J0001/J0001_quote_03-15-2024.csv'')"
    by (simp add: save_document_csv_def written_rows_def header_rows_def line_row_def
          allowance_rows_def total_def compute_totals_def format_date_def DATE_FORMAT_def
          path_join_def Let_def whole_arith_def whole_text_def ymd_dates_def example_date_def
          whole_str_def digits.simps two_digits_def as_read_def field_limit_def
          closing_lines_def closing_file_def)
  show "to_float whole_text ''abc'' = None"
    by (simp add: whole_text_def whole_examples)
  show "map_option (\<lambda>(msgs, st). (ld_lines st, ld_totals st ''grand_total''))
     (load_quote_from_csv whole_arith whole_text ymd_dates
        [''jobs/J0001/J0001_quote_03-15-2024.csv'' \<mapsto> Rows closing_file]
        ''jobs/J0001/J0001_quote_03-15-2024.csv'')
     = Some ([], Some 500)"
    by (simp add: closing_file_def
          load_quote_from_csv_def scan_rows.simps row_step_def table_loop.simps
          allowance_loop.simps allowance_of_row_def text_cell_def number_cell_def item_def
          item_last_def strip_def py_isspace_def table_end_def initial_def set_meta_def
          set_total_def float_or_zero_def whole_float_def whole_arith_def whole_text_def
          parse_mmddyyyy_def ymd_dates_def ymd_eval Let_def)
  show "map_option (\<lambda>(msgs, st). (ld_lines st, ld_totals st ''grand_total''))
     (load_quote_from_csv whole_arith whole_text ymd_dates
        [''jobs/J0001/J0001_quote_03-15-2024.csv'' \<mapsto>
           as_read (closing_file[9 := (closing_file ! 9)[6 := ''abc'']])]
        ''jobs/J0001/J0001_quote_03-15-2024.csv'')
     = Some ([], Some 0)"
    by (simp add: closing_file_def as_read_def field_limit_def
          load_quote_from_csv_def scan_rows.simps row_step_def table_loop.simps
          allowance_loop.simps allowance_of_row_def text_cell_def number_cell_def item_def
          item_last_def strip_def py_isspace_def table_end_def initial_def set_meta_def
          set_total_def float_or_zero_def whole_float_def whole_arith_def whole_text_def
          parse_mmddyyyy_def ymd_dates_def ymd_eval Let_def)
qed

section \<open>The arithmetic of \<^verbatim>\<open>float\<close>\<close>

text \<open>
  A Python \<^verbatim>\<open>float\<close> is an IEEE 754 binary64 number: a sum or a product is the exact
  result rounded to 53 significant bits, to the nearest such number and, of two equally
  near, to the one with an even last bit; a result from \<open>2\<^sup>1\<^sup>0\<^sup>2\<^sup>4\<close> on is an infinity. The
  finite numbers are given by their values, so the sign of a zero is not kept (\<^verbatim>\<open>-0.0\<close>
  and \<^verbatim>\<open>0.0\<close> are one value here, as they are for \<^verbatim>\<open>==\<close>).
\<close>

datatype b64 = Fin rat | PInf | NInf | NaN

definition pow2 :: "int \<Rightarrow> rat" where
  "pow2 k = (if 0 \<le> k then 2 ^ nat k else 1 / 2 ^ nat (- k))"

text \<open>The number of binary digits of a natural number.\<close>

function bits :: "nat \<Rightarrow> nat" where
  "bits n = (if n = 0 then 0 else Suc (bits (n div 2)))"
  by pat_completeness auto
termination
  by (relation "measure id") auto

declare bits.simps [simp del]

text \<open>The exponent \<open>e\<close> of a positive number: \<open>2\<^sup>e \<le> q < 2\<^sup>e\<^sup>+\<^sup>1\<close>.\<close>

definition floor_log2 :: "rat \<Rightarrow> int" where
  "floor_log2 q =
     (if 1 \<le> q then int (bits (nat \<lfloor>q\<rfloor>)) - 1
      else (let k = int (bits (nat \<lfloor>1 / q\<rfloor>)) - 1
            in if q = pow2 (- k) then - k else - k - 1))"

definition round_even :: "rat \<Rightarrow> int" where
  "round_even x =
     (let f = \<lfloor>x\<rfloor>; d = x - of_int f
      in if d < 1 / 2 then f else if 1 / 2 < d then f + 1 else if even f then f else f + 1)"

definition round64 :: "rat \<Rightarrow> b64" where
  "round64 q =
     (if q = 0 then Fin 0
      else (let e = max (floor_log2 \<bar>q\<bar>) (- 1022);
                quantum = pow2 (e - 52);
                r = of_int (round_even (\<bar>q\<bar> / quantum)) * quantum
            in if pow2 1024 \<le> r then (if 0 < q then PInf else NInf)
               else Fin (if 0 < q then r else - r)))"

fun b64_add :: "b64 \<Rightarrow> b64 \<Rightarrow> b64" where
  "b64_add (Fin a) (Fin b) = round64 (a + b)"
| "b64_add NaN _ = NaN"
| "b64_add _ NaN = NaN"
| "b64_add PInf NInf = NaN"
| "b64_add NInf PInf = NaN"
| "b64_add PInf _ = PInf"
| "b64_add _ PInf = PInf"
| "b64_add NInf _ = NInf"
| "b64_add _ NInf = NInf"

fun b64_mul :: "b64 \<Rightarrow> b64 \<Rightarrow> b64" where
  "b64_mul (Fin a) (Fin b) = round64 (a * b)"
| "b64_mul NaN _ = NaN"
| "b64_mul _ NaN = NaN"
| "b64_mul (Fin a) PInf = (if a = 0 then NaN else if 0 < a then PInf else NInf)"
| "b64_mul (Fin a) NInf = (if a = 0 then NaN else if 0 < a then NInf else PInf)"
| "b64_mul PInf (Fin b) = (if b = 0 then NaN else if 0 < b then PInf else NInf)"
| "b64_mul NInf (Fin b) = (if b = 0 then NaN else if 0 < b then NInf else PInf)"
| "b64_mul PInf PInf = PInf"
| "b64_mul PInf NInf = NInf"
| "b64_mul NInf PInf = NInf"
| "b64_mul NInf NInf = PInf"

fun b64_neg :: "b64 \<Rightarrow> b64" where
  "b64_neg (Fin a) = Fin (- a)"
| "b64_neg PInf = NInf"
| "b64_neg NInf = PInf"
| "b64_neg NaN = NaN"

definition b64_sub :: "b64 \<Rightarrow> b64 \<Rightarrow> b64" where
  "b64_sub x y = b64_add x (b64_neg y)"

text \<open>\<^verbatim>\<open>fabs(x) >= fabs(y)\<close>\<close>

fun fabs_ge :: "b64 \<Rightarrow> b64 \<Rightarrow> bool" where
  "fabs_ge NaN _ = False"
| "fabs_ge _ NaN = False"
| "fabs_ge (Fin a) (Fin b) = (\<bar>b\<bar> \<le> \<bar>a\<bar>)"
| "fabs_ge (Fin a) _ = False"
| "fabs_ge _ _ = True"

subsection \<open>The builtin \<^verbatim>\<open>sum\<close>\<close>

text \<open>
  \<^verbatim>\<open>sum\<close> starts from the \<^verbatim>\<open>int\<close> zero, to which the first \<^verbatim>\<open>float\<close> is added as to
  \<^verbatim>\<open>0.0\<close>. Up to version 3.11 of CPython it then adds the others from left to right.
\<close>

definition sum_311 :: "b64 list \<Rightarrow> b64" where
  "sum_311 xs = foldl b64_add (Fin 0) xs"

text \<open>
  From version 3.12 on it accumulates the others with a running compensation \<open>c\<close> of the
  rounding errors (Neumaier's variant of Kahan summation), which it adds at the end when
  it is finite and not zero.
\<close>

definition neumaier_step :: "b64 \<times> b64 \<Rightarrow> b64 \<Rightarrow> b64 \<times> b64" where
  "neumaier_step sc x =
     (let (s, c) = sc; t = b64_add s x
      in (t, if fabs_ge s x then b64_add c (b64_add (b64_sub s t) x)
             else b64_add c (b64_add (b64_sub x t) s)))"

definition sum_312 :: "b64 list \<Rightarrow> b64" where
  "sum_312 xs =
     (case xs of
        [] \<Rightarrow> Fin 0
      | x # rest \<Rightarrow>
          (let (s, c) = foldl neumaier_step (b64_add (Fin 0) x, Fin 0) rest
           in case c of Fin e \<Rightarrow> (if e \<noteq> 0 then b64_add s c else s) | _ \<Rightarrow> s))"

text \<open>The arithmetic of \<^verbatim>\<open>float\<close> with one or the other \<^verbatim>\<open>sum\<close>.\<close>

definition float_arith :: "(b64 list \<Rightarrow> b64) \<Rightarrow> b64 py_arith" where
  "float_arith sm = \<lparr>py_add = b64_add, py_mul = b64_mul, py_sum = sm, float_zero = Fin 0\<rparr>"

subsection \<open>Rounding\<close>

lemma floor_numeral_divide_rat [simp]:
  "\<lfloor>numeral a / numeral b :: rat\<rfloor> = numeral a div numeral b"
  "\<lfloor>1 / numeral b :: rat\<rfloor> = 1 div numeral b"
  using floor_divide_of_int_eq [of "numeral a" "numeral b", where ?'a = rat]
    floor_divide_of_int_eq [of 1 "numeral b", where ?'a = rat]
  by simp_all

lemmas b64_eval = round64_def floor_log2_def round_even_def pow2_def bits.simps Let_def


lemma round_even_of_int [simp]: "round_even (of_int m) = m"
  by (simp add: round_even_def)

lemma pow2_nonpos: "k \<le> 0 \<Longrightarrow> pow2 k = 1 / 2 ^ nat (- k)"
  by (cases "k = 0") (simp_all add: pow2_def)

lemma bits_0 [simp]: "bits 0 = 0"
  by (simp add: bits.simps)

lemma bits_pos: "0 < n \<Longrightarrow> bits n = Suc (bits (n div 2))"
  by (subst bits.simps) simp

lemma bits_lower: "0 < n \<Longrightarrow> 2 ^ (bits n - 1) \<le> n"
proof (induction n rule: bits.induct)
  case (1 n)
  show ?case
  proof (cases "n div 2 = 0")
    case True
    with "1.prems" show ?thesis by (simp add: bits_pos)
  next
    case False
    then have pos: "0 < n div 2" by simp
    with "1.IH" "1.prems" have "2 ^ (bits (n div 2) - 1) \<le> n div 2" by simp
    then have "2 * 2 ^ (bits (n div 2) - 1) \<le> n" by simp
    moreover have "bits n - 1 = Suc (bits (n div 2) - 1)"
      using "1.prems" pos by (simp add: bits_pos)
    ultimately show ?thesis by simp
  qed
qed

text \<open>A whole number up to \<open>2\<^sup>5\<^sup>3\<close> is a \<^verbatim>\<open>float\<close>: rounding leaves it as it is.\<close>

lemma round64_whole:
  assumes "n \<le> 2 ^ 53"
  shows "round64 (of_nat n) = Fin (of_nat n)"
proof (cases "n = 0")
  case True
  then show ?thesis by (simp add: round64_def)
next
  case False
  then have pos: "0 < n" by simp
  define b where "b = bits n"
  have b1: "1 \<le> b" using pos by (simp add: b_def bits_pos)
  have low: "2 ^ (b - 1) \<le> n" using bits_lower [OF pos] by (simp add: b_def)
  with assms have le: "(2::nat) ^ (b - 1) \<le> 2 ^ 53" by simp
  have "b - 1 \<le> 53" by (rule power_le_imp_le_exp [OF _ le]) simp
  then have b54: "b \<le> 54" by simp
  have q1: "(1::rat) \<le> of_nat n" using pos by simp
  have fl: "floor_log2 (of_nat n) = int b - 1"
    using q1 by (simp add: floor_log2_def b_def)
  have e: "max (int b - 1) (- 1022) = int b - 1" using b1 by simp
  have r: "of_int (round_even (of_nat n / pow2 (int b - 53))) * pow2 (int b - 53) = (of_nat n :: rat)"
  proof (cases "b \<le> 53")
    case True
    then have p: "pow2 (int b - 53) = 1 / 2 ^ (53 - b)"
      by (simp add: pow2_nonpos nat_diff_distrib')
    have "of_nat n / pow2 (int b - 53) = (of_int (int (n * 2 ^ (53 - b))) :: rat)"
      by (simp add: p)
    then show ?thesis by (simp only: round_even_of_int) (simp add: p)
  next
    case False
    with b54 have b: "b = 54" by simp
    with low assms have n: "n = 2 ^ 53" by simp
    have "of_nat n / pow2 (int b - 53) = (of_int (2 ^ 52) :: rat)"
      by (simp add: b n pow2_def)
    then show ?thesis by (simp only: round_even_of_int) (simp add: b n pow2_def)
  qed
  have "of_nat n \<le> (2::rat) ^ 53"
    using assms by (metis of_nat_le_iff of_nat_numeral of_nat_power)
  also have "\<dots> < 2 ^ 1024" by (rule power_strict_increasing) simp_all
  finally have small: "\<not> pow2 1024 \<le> (of_nat n :: rat)" by (simp add: pow2_def)
  have ne: "(of_nat n :: rat) \<noteq> 0" "0 < (of_nat n :: rat)" using pos by simp_all
  show ?thesis
    unfolding round64_def Let_def using ne small
    by (simp add: fl e r [simplified] ) 
qed

lemma b64_examples:
  "round64 (1 / 10) = Fin (3602879701896397 / 36028797018963968)"
  "round64 3 = Fin 3"
  "round64 (2 ^ 53 + 1) = Fin (2 ^ 53)"
  "round64 (2 ^ 53 + 3) = Fin (2 ^ 53 + 4)"
  "round64 (1 - 1 / 2 ^ 54) = Fin 1"
  by (simp_all add: b64_eval)

text \<open>A \<^verbatim>\<open>float\<close> that is a whole number and not negative, and the number it is.\<close>

definition whole :: "b64 \<Rightarrow> bool" where
  "whole x \<longleftrightarrow> (case x of Fin q \<Rightarrow> 0 \<le> q \<and> of_int \<lfloor>q\<rfloor> = q | _ \<Rightarrow> False)"

definition amount :: "b64 \<Rightarrow> nat" where
  "amount x = (case x of Fin q \<Rightarrow> nat \<lfloor>q\<rfloor> | _ \<Rightarrow> 0)"

lemma whole_amount: "whole x \<Longrightarrow> x = Fin (of_nat (amount x))"
  by (cases x) (auto simp: whole_def amount_def)

lemma sum_whole:
  assumes "list_all whole xs" and "a + sum_list (map amount xs) \<le> 2 ^ 53"
  shows "foldl b64_add (Fin (of_nat a)) xs = Fin (of_nat (a + sum_list (map amount xs)))"
  using assms
proof (induction xs arbitrary: a)
  case Nil
  show ?case by simp
next
  case (Cons x xs)
  then have x: "x = Fin (of_nat (amount x))" and xs: "list_all whole xs"
    by (simp_all add: whole_amount)
  from Cons.prems(2) have le: "a + amount x \<le> 2 ^ 53"
    and le': "(a + amount x) + sum_list (map amount xs) \<le> 2 ^ 53"
    by simp_all
  have "b64_add (Fin (of_nat a)) x = round64 (of_nat (a + amount x))"
    by (subst x) simp
  also have "\<dots> = Fin (of_nat (a + amount x))" by (rule round64_whole [OF le])
  finally have step: "b64_add (Fin (of_nat a)) x = Fin (of_nat (a + amount x))" .
  from Cons.IH [OF xs le'] show ?case
    by (simp add: step add.assoc)
qed

lemma round64_zero [simp]: "round64 0 = Fin 0"
  by (simp add: round64_def)

lemma round64_minus: "round64 (- q) = b64_neg (round64 q)"
  by (simp add: round64_def Let_def)

lemma round64_minus_whole: "n \<le> 2 ^ 53 \<Longrightarrow> round64 (- of_nat n) = Fin (- of_nat n)"
  by (simp add: round64_minus round64_whole)

text \<open>A sum of whole numbers that stays within \<open>2\<^sup>5\<^sup>3\<close> is exact under either
  \<^verbatim>\<open>sum\<close>; under the second the compensation stays zero.\<close>

lemma sum_311_whole:
  assumes "list_all whole xs" and "sum_list (map amount xs) \<le> 2 ^ 53"
  shows "sum_311 xs = Fin (of_nat (sum_list (map amount xs)))"
  using sum_whole [of xs 0] assms by (simp add: sum_311_def)

lemma neumaier_step_whole:
  assumes "a + n \<le> 2 ^ 53"
  shows "neumaier_step (Fin (of_nat a), Fin 0) (Fin (of_nat n)) = (Fin (of_nat (a + n)), Fin 0)"
proof -
  from assms have a: "a \<le> 2 ^ 53" and n: "n \<le> 2 ^ 53" by simp_all
  have t: "b64_add (Fin (of_nat a)) (Fin (of_nat n)) = Fin (of_nat (a + n))"
    using round64_whole [OF assms] by simp
  have 1: "b64_sub (Fin (of_nat a)) (Fin (of_nat (a + n))) = Fin (- of_nat n)"
    using round64_minus_whole [OF n] by (simp add: b64_sub_def)
  have 2: "b64_sub (Fin (of_nat n)) (Fin (of_nat (a + n))) = Fin (- of_nat a)"
    using round64_minus_whole [OF a] by (simp add: b64_sub_def)
  show ?thesis
    unfolding neumaier_step_def Let_def prod.case t 1 2 by simp
qed

lemma neumaier_whole:
  assumes "list_all whole xs" and "a + sum_list (map amount xs) \<le> 2 ^ 53"
  shows "foldl neumaier_step (Fin (of_nat a), Fin 0) xs
           = (Fin (of_nat (a + sum_list (map amount xs))), Fin 0)"
  using assms
proof (induction xs arbitrary: a)
  case Nil
  show ?case by simp
next
  case (Cons x xs)
  then have x: "x = Fin (of_nat (amount x))" and xs: "list_all whole xs"
    by (simp_all add: whole_amount)
  from Cons.prems(2) have le: "a + amount x \<le> 2 ^ 53"
    and le': "(a + amount x) + sum_list (map amount xs) \<le> 2 ^ 53"
    by simp_all
  have step: "neumaier_step (Fin (of_nat a), Fin 0) x = (Fin (of_nat (a + amount x)), Fin 0)"
    by (subst x) (rule neumaier_step_whole [OF le])
  from Cons.IH [OF xs le'] show ?case
    by (simp add: step add.assoc)
qed

lemma sum_312_whole:
  assumes "list_all whole xs" and "sum_list (map amount xs) \<le> 2 ^ 53"
  shows "sum_312 xs = Fin (of_nat (sum_list (map amount xs)))"
proof (cases xs)
  case Nil
  then show ?thesis by (simp add: sum_312_def)
next
  case (Cons x rest)
  with assms have x: "x = Fin (of_nat (amount x))" and rest: "list_all whole rest"
    and le: "amount x + sum_list (map amount rest) \<le> 2 ^ 53"
    by (simp_all add: whole_amount)
  from le have "amount x \<le> 2 ^ 53" by simp
  then have first: "b64_add (Fin 0) x = Fin (of_nat (amount x))"
    by (subst x) (simp add: round64_whole)
  show ?thesis
    by (simp add: Cons sum_312_def first neumaier_whole [OF rest le])
qed

text \<open>
  The two functions differ on \<^verbatim>\<open>[1e16, 1.0, 1.0]\<close>: the first returns \<^verbatim>\<open>1e+16\<close>, the
  second \<^verbatim>\<open>1.0000000000000002e+16\<close>.
\<close>

lemma sum_311_sum_312_differ:
  "sum_311 [Fin (10 ^ 16), Fin 1, Fin 1] = Fin (10 ^ 16)"
  "sum_312 [Fin (10 ^ 16), Fin 1, Fin 1] = Fin (10 ^ 16 + 2)"
  by (simp_all add: sum_311_def sum_312_def neumaier_step_def b64_sub_def b64_eval)

text \<open>
  C2, as the code has it. For every interpretation of the numbers, the subtotal that
  \<^verbatim>\<open>compute_totals\<close> returns is what \<^verbatim>\<open>sum\<close> returns for the products of quantity and
  rate, taken through the line items in their order. In the arithmetic of \<^verbatim>\<open>float\<close>,
  under the \<^verbatim>\<open>sum\<close> of CPython up to 3.11 and under that of CPython from 3.12 on, the
  subtotal is the exact sum, and the same for every order of the line items, when the
  products are whole numbers, not negative, that add up to at most \<open>2\<^sup>5\<^sup>3\<close>.
\<close>

theorem subtotal_sum_in_order:
  assumes "list_all (\<lambda>l. whole (b64_mul (hours l) (rate l))) ls"
    and "(\<Sum>l\<leftarrow>ls. amount (b64_mul (hours l) (rate l))) \<le> 2 ^ 53"
    and "mset ls' = mset ls"
  shows "compute_totals A lines receipts_total ''subtotal''
           = Some (py_sum A (map (\<lambda>l. py_mul A (hours l) (rate l)) lines)) \<and>
         compute_totals (float_arith sum_311) ls r ''subtotal''
           = Some (Fin (of_nat (\<Sum>l\<leftarrow>ls. amount (b64_mul (hours l) (rate l))))) \<and>
         compute_totals (float_arith sum_312) ls r ''subtotal''
           = Some (Fin (of_nat (\<Sum>l\<leftarrow>ls. amount (b64_mul (hours l) (rate l))))) \<and>
         compute_totals (float_arith sum_311) ls' r ''subtotal''
           = compute_totals (float_arith sum_311) ls r ''subtotal'' \<and>
         compute_totals (float_arith sum_312) ls' r ''subtotal''
           = compute_totals (float_arith sum_312) ls r ''subtotal''"
proof -
  have 1: "compute_totals A lines receipts_total ''subtotal''
             = Some (py_sum A (map (\<lambda>l. py_mul A (hours l) (rate l)) lines))"
    by (simp add: compute_totals_def Let_def total_def [abs_def])
  have ct: "compute_totals (float_arith sm) ks r ''subtotal''
              = Some (sm (map (\<lambda>l. b64_mul (hours l) (rate l)) ks))" for sm ks
    by (simp add: compute_totals_def Let_def float_arith_def total_def [abs_def])
  have products: "list_all whole (map (\<lambda>l. b64_mul (hours l) (rate l)) ks)"
      "sum_list (map amount (map (\<lambda>l. b64_mul (hours l) (rate l)) ks))
         = (\<Sum>l\<leftarrow>ks. amount (b64_mul (hours l) (rate l)))"
    if "list_all (\<lambda>l. whole (b64_mul (hours l) (rate l))) ks" for ks
    using that by (simp_all add: list_all_iff comp_def)
  have sub: "compute_totals (float_arith sum_311) ks r ''subtotal''
               = Some (Fin (of_nat (\<Sum>l\<leftarrow>ks. amount (b64_mul (hours l) (rate l)))))"
      "compute_totals (float_arith sum_312) ks r ''subtotal''
               = Some (Fin (of_nat (\<Sum>l\<leftarrow>ks. amount (b64_mul (hours l) (rate l)))))"
    if w: "list_all (\<lambda>l. whole (b64_mul (hours l) (rate l))) ks"
      and le: "(\<Sum>l\<leftarrow>ks. amount (b64_mul (hours l) (rate l))) \<le> 2 ^ 53" for ks
  proof -
    from le have le': "sum_list (map amount (map (\<lambda>l. b64_mul (hours l) (rate l)) ks)) \<le> 2 ^ 53"
      by (simp only: products(2) [OF w])
    show "compute_totals (float_arith sum_311) ks r ''subtotal''
            = Some (Fin (of_nat (\<Sum>l\<leftarrow>ks. amount (b64_mul (hours l) (rate l)))))"
      unfolding ct sum_311_whole [OF products(1) [OF w] le'] products(2) [OF w] ..
    show "compute_totals (float_arith sum_312) ks r ''subtotal''
            = Some (Fin (of_nat (\<Sum>l\<leftarrow>ks. amount (b64_mul (hours l) (rate l)))))"
      unfolding ct sum_312_whole [OF products(1) [OF w] le'] products(2) [OF w] ..
  qed
  have set: "set ls' = set ls" using assms(3) by (rule mset_eq_setD)
  have sum: "sum_list (map f ls') = sum_list (map f ls)" for f :: "b64 EstimateLine \<Rightarrow> nat"
  proof -
    from assms(3) have "mset (map f ls') = mset (map f ls)" by simp
    then have "sum_mset (mset (map f ls')) = sum_mset (mset (map f ls))" by (rule arg_cong)
    then show ?thesis by (simp only: sum_mset_sum_list)
  qed
  have w': "list_all (\<lambda>l. whole (b64_mul (hours l) (rate l))) ls'"
    using assms(1) by (simp add: list_all_iff set)
  have le': "(\<Sum>l\<leftarrow>ls'. amount (b64_mul (hours l) (rate l))) \<le> 2 ^ 53"
    using assms(2) by (simp only: sum)
  have 2: "compute_totals (float_arith sum_311) ls' r ''subtotal''
             = compute_totals (float_arith sum_311) ls r ''subtotal''"
    unfolding sub(1) [OF w' le'] sub(1) [OF assms(1,2)] sum ..
  have 3: "compute_totals (float_arith sum_312) ls' r ''subtotal''
             = compute_totals (float_arith sum_312) ls r ''subtotal''"
    unfolding sub(2) [OF w' le'] sub(2) [OF assms(1,2)] sum ..
  from 1 sub(1) [OF assms(1,2)] sub(2) [OF assms(1,2)] 2 3 show ?thesis
    by (intro conjI)
qed

text \<open>The example document in the arithmetic of \<^verbatim>\<open>float\<close>.\<close>

definition float_lines :: "b64 EstimateLine list" where
  "float_lines =
     [\<lparr>line_section = ''Kitchen'', description = ''Demo'', worker_type = ''Labor'',
       hours = Fin 1, rate = Fin 500, detail = []\<rparr>,
      \<lparr>line_section = ''Kitchen'', description = ''Tile'', worker_type = ''Material'',
       hours = Fin 10, rate = Fin 12, detail = ''Floor tile''\<rparr>]"

theorem subtotal_sum_in_order_example:
  "compute_totals (float_arith sum_311) float_lines (Fin 0) ''subtotal'' = Some (Fin 620) \<and>
   compute_totals (float_arith sum_311) (rev float_lines) (Fin 0) ''subtotal'' = Some (Fin 620) \<and>
   compute_totals (float_arith sum_312) float_lines (Fin 0) ''subtotal'' = Some (Fin 620) \<and>
   compute_totals (float_arith sum_312) (rev float_lines) (Fin 0) ''subtotal'' = Some (Fin 620)"
proof -
  have products: "map (\<lambda>l. b64_mul (hours l) (rate l)) float_lines = [Fin 500, Fin 120]"
    by (simp add: float_lines_def b64_eval)
  have 1: "list_all (\<lambda>l. whole (b64_mul (hours l) (rate l))) float_lines"
    using products by (simp add: float_lines_def whole_def)
  have 2: "(\<Sum>l\<leftarrow>float_lines. amount (b64_mul (hours l) (rate l))) \<le> 2 ^ 53"
    using products by (simp add: float_lines_def amount_def)
  have 3: "mset (rev float_lines) = mset float_lines" by simp
  have 4: "(\<Sum>l\<leftarrow>float_lines. amount (b64_mul (hours l) (rate l))) = 620"
    using products by (simp add: float_lines_def amount_def)
  from subtotal_sum_in_order [OF 1 2 3, of "float_arith sum_311" float_lines "Fin 0" "Fin 0"]
  have "compute_totals (float_arith sum_311) float_lines (Fin 0) ''subtotal''
          = Some (Fin (of_nat 620))"
    and "compute_totals (float_arith sum_312) float_lines (Fin 0) ''subtotal''
          = Some (Fin (of_nat 620))"
    and "compute_totals (float_arith sum_311) (rev float_lines) (Fin 0) ''subtotal''
           = compute_totals (float_arith sum_311) float_lines (Fin 0) ''subtotal''"
    and "compute_totals (float_arith sum_312) (rev float_lines) (Fin 0) ''subtotal''
           = compute_totals (float_arith sum_312) float_lines (Fin 0) ''subtotal''"
    unfolding 4 by blast+
  then show ?thesis by simp
qed

text \<open>
  C2 fails as it is stated: the subtotal depends on the order of the line items, under
  either \<^verbatim>\<open>sum\<close>. The three rates are the values of the \<^verbatim>\<open>float\<close> literals
  \<^verbatim>\<open>0.9999999999999999\<close>, \<^verbatim>\<open>2.0\<close> and \<^verbatim>\<open>1e16\<close>, each for a quantity of \<^verbatim>\<open>1.0\<close>. In
  this order the subtotal is \<^verbatim>\<open>1.0000000000000004e+16\<close>, in the reverse order
  \<^verbatim>\<open>1.0000000000000002e+16\<close>.
\<close>

definition small_first :: "b64 EstimateLine list" where
  "small_first =
     [\<lparr>line_section = [], description = ''a'', worker_type = ''Material'',
       hours = Fin 1, rate = Fin (1 - 1 / 2 ^ 53), detail = []\<rparr>,
      \<lparr>line_section = [], description = ''b'', worker_type = ''Material'',
       hours = Fin 1, rate = Fin 2, detail = []\<rparr>,
      \<lparr>line_section = [], description = ''c'', worker_type = ''Material'',
       hours = Fin 1, rate = Fin (10 ^ 16), detail = []\<rparr>]"

theorem subtotal_depends_on_order:
  "compute_totals (float_arith sum_311) small_first (Fin 0) ''subtotal''
     = Some (Fin (10 ^ 16 + 4)) \<and>
   compute_totals (float_arith sum_311) (rev small_first) (Fin 0) ''subtotal''
     = Some (Fin (10 ^ 16 + 2)) \<and>
   compute_totals (float_arith sum_312) small_first (Fin 0) ''subtotal''
     = Some (Fin (10 ^ 16 + 4)) \<and>
   compute_totals (float_arith sum_312) (rev small_first) (Fin 0) ''subtotal''
     = Some (Fin (10 ^ 16 + 2)) \<and>
   round64 (1 - 1 / 2 ^ 53) = Fin (1 - 1 / 2 ^ 53) \<and> round64 2 = Fin 2 \<and>
   round64 (10 ^ 16) = Fin (10 ^ 16)"
proof -
  have products: "map (total (float_arith sm)) small_first
                    = [Fin (1 - 1 / 2 ^ 53), Fin 2, Fin (10 ^ 16)]" for sm
    by (simp add: small_first_def total_def float_arith_def b64_eval)
  have sums:
    "sum_311 [Fin (1 - 1 / 2 ^ 53), Fin 2, Fin (10 ^ 16)] = Fin (10 ^ 16 + 4)"
    "sum_311 [Fin (10 ^ 16), Fin 2, Fin (1 - 1 / 2 ^ 53)] = Fin (10 ^ 16 + 2)"
    "sum_312 [Fin (1 - 1 / 2 ^ 53), Fin 2, Fin (10 ^ 16)] = Fin (10 ^ 16 + 4)"
    "sum_312 [Fin (10 ^ 16), Fin 2, Fin (1 - 1 / 2 ^ 53)] = Fin (10 ^ 16 + 2)"
    by (simp_all add: sum_311_def sum_312_def neumaier_step_def b64_sub_def b64_eval)
  have rounded: "round64 (1 - 1 / 2 ^ 53) = Fin (1 - 1 / 2 ^ 53)" "round64 2 = Fin 2"
    "round64 (10 ^ 16) = Fin (10 ^ 16)"
    by (simp_all add: b64_eval)
  have sub: "compute_totals (float_arith sm) ks (Fin 0) ''subtotal''
               = Some (sm (map (total (float_arith sm)) ks))" for sm ks
    by (simp add: compute_totals_def Let_def float_arith_def)
  show ?thesis
    unfolding sub rev_map [symmetric] products
    using sums rounded by simp
qed

section \<open>What every loaded document satisfies\<close>

text \<open>
  The conditions on the texts under which an export is read back hold for every document
  that \<^verbatim>\<open>load_quote_from_csv\<close> returns: its texts are stripped, no line section is a
  closing word of the table, and no allowance is described as \<^verbatim>\<open>OwnerAllowancesTotal\<close>.
\<close>

lemma rstrip_Cons:
  "rev (dropWhile P (rev (x # xs)))
     = (if list_all P (x # xs) then [] else x # rev (dropWhile P (rev xs)))"
  by (auto simp: dropWhile_append list_all_iff)

lemma strip_strip: "strip (strip s) = strip s"
proof -
  define u where "u = dropWhile py_isspace s"
  have u: "u = [] \<or> \<not> py_isspace (hd u)"
    unfolding u_def by (metis hd_dropWhile)
  have "dropWhile py_isspace (rev (dropWhile py_isspace (rev u)))
          = rev (dropWhile py_isspace (rev u))"
  proof (cases u)
    case Nil
    then show ?thesis by simp
  next
    case (Cons x xs)
    with u have "\<not> py_isspace x" by simp
    with Cons show ?thesis by (simp add: rstrip_Cons del: rev.simps)
  qed
  then show ?thesis by (simp add: strip_def u_def)
qed

lemma stripped_strip [simp]: "stripped (strip s)"
  by (simp add: stripped_def strip_strip)

lemma stripped_cell_text [simp]: "stripped (cell_text r k)"
  by (simp add: cell_text_def) (simp add: stripped_def strip_def)

definition line_texts_ok :: "'n EstimateLine \<Rightarrow> bool" where
  "line_texts_ok l \<longleftrightarrow>
     stripped (line_section l) \<and> stripped (description l) \<and> stripped (detail l) \<and>
     stripped (worker_type l) \<and> line_section l \<notin> set table_end"

definition allowance_texts_ok :: "'n OwnerAllowance \<Rightarrow> bool" where
  "allowance_texts_ok a \<longleftrightarrow>
     stripped (a_description a) \<and> a_description a \<noteq> ''OwnerAllowancesTotal''"

definition texts_ok :: "('n, 'd) loaded \<Rightarrow> bool" where
  "texts_ok st \<longleftrightarrow>
     (\<forall>k v. ld_meta st k = Some (Text v) \<longrightarrow> stripped v) \<and>
     list_all line_texts_ok (ld_lines st) \<and> list_all allowance_texts_ok (ld_allowances st)"

lemma table_loop_lines_ok:
  "table_loop A T rows i lines = Some (j, ls) \<Longrightarrow> list_all line_texts_ok lines \<Longrightarrow>
   list_all line_texts_ok ls"
proof (induction "length rows - i" arbitrary: i lines)
  case 0
  then show ?case by (simp add: table_loop_end)
next
  case (Suc n)
  then have i: "i < length rows" and n: "n = length rows - (i + 1)" by simp_all
  have row: "line_texts_ok (row_line A T (rows ! i))"
    if "rows ! i \<noteq> []" "strip (hd (rows ! i)) \<notin> set table_end"
    using that by (simp add: line_texts_ok_def row_line_def)
      (simp add: cell_text_def hd_conv_nth)
  from Suc.prems Suc.hyps(1) [OF n] row show ?case
    by (auto simp: table_loop_row [OF i] split: if_splits)
qed

lemma allowance_loop_allowances_ok:
  "allowance_loop A T rows i as = Some (j, bs) \<Longrightarrow> list_all allowance_texts_ok as \<Longrightarrow>
   list_all allowance_texts_ok bs"
proof (induction "length rows - i" arbitrary: i as)
  case 0
  then show ?case by (simp add: allowance_loop_end)
next
  case (Suc n)
  then have i: "i < length rows" and n: "n = length rows - (i + 1)" by simp_all
  have row: "allowance_texts_ok (row_allowance A T (rows ! i))"
    if "rows ! i \<noteq> []" "strip (hd (rows ! i)) \<noteq> ''OwnerAllowancesTotal''"
    using that by (simp add: allowance_texts_ok_def row_allowance_def)
      (simp add: cell_text_def hd_conv_nth)
  from Suc.prems Suc.hyps(1) [OF n] row show ?case
    by (auto simp: allowance_loop_row [OF i] split: if_splits)
qed

lemma key_value_texts_ok: "texts_ok st \<Longrightarrow> texts_ok (key_value A T D r st)"
  by (auto simp: texts_ok_def key_value_def set_meta_def set_total_def Let_def
        split: option.splits if_splits)

lemma row_step_texts_ok:
  assumes "i < length rows" and "row_step A T D rows i st = Some (j, st1)" and "texts_ok st"
  shows "texts_ok st1"
proof (cases "rows ! i = []")
  case True
  with assms show ?thesis by (simp add: row_step_empty)
next
  case False
  show ?thesis
  proof (cases "strip (hd (rows ! i)) = ''Section''")
    case True
    with assms False show ?thesis
      by (auto simp: row_step_section texts_ok_def split: bind_splits
            dest: table_loop_lines_ok)
  next
    case no_section: False
    show ?thesis
    proof (cases "strip (hd (rows ! i)) = marker")
      case True
      with assms False show ?thesis
        by (auto simp: row_step_marker texts_ok_def split: bind_splits
              dest: allowance_loop_allowances_ok)
    next
      case no_marker: False
      with assms False no_section show ?thesis
        by (auto simp: row_step_key_value key_value_texts_ok)
    qed
  qed
qed

lemma loaded_texts_ok:
  fixes A :: "'n py_arith" and D :: "'d py_dates"
  assumes "load_quote_from_csv A T D fs path = Some (msgs, st)"
  shows "texts_ok st"
proof (cases "fs path")
  case None
  with assms show ?thesis
    by (auto simp: load_quote_from_csv_def nothing_loaded_def texts_ok_def)
next
  case (Some content)
  with assms obtain rows where run: "scan_rows A T D rows 0 (initial A D) = Some st"
    by (cases content) (auto simp: load_quote_from_csv_def split: bind_splits)
  have init: "texts_ok (initial A D)"
    by (auto simp: texts_ok_def initial_def stripped_def strip_def py_isspace_def
          split: if_splits)
  show ?thesis
    by (rule scan_rows_invariant [where P = texts_ok, OF run init])
       (rule row_step_texts_ok)
qed

end
